theory Spec2Isabelle
  imports Main "HOL-Library.List_Lexorder" "HOL-Library.Char_ord"
begin

unbundle bit_operations_syntax

section \<open>Python values, exceptions and primitive operations\<close>

text \<open>
  The generators under \<^verbatim>\<open>LoRe-Bench/LoRe-Mono/scripts\<close> are Python scripts.
  Python integers are unbounded, so they are \<^typ>\<open>int\<close>; a Python \<^verbatim>\<open>str\<close> is a
  \<^typ>\<open>string\<close> (the seeds and dictionaries of the scripts are ASCII, and a
  \<^typ>\<open>char\<close> stands for one code point below 256).  An uncaught exception is the
  \<open>Inl\<close> branch of a sum type.
\<close>

datatype pyerr =
    NameError string
  | IndexError
  | KeyError
  | ZeroDivisionError
  | TypeError

text \<open>\<^verbatim>\<open>xs[i]\<close>: negative indices count from the end, anything else out of range raises.\<close>

definition py_index :: "'a list \<Rightarrow> int \<Rightarrow> pyerr + 'a" where
  "py_index xs i =
     (if 0 \<le> i \<and> i < int (length xs) then Inr (xs ! nat i)
      else if i < 0 \<and> - int (length xs) \<le> i then Inr (xs ! nat (int (length xs) + i))
      else Inl IndexError)"

text \<open>\<^verbatim>\<open>a % b\<close> on integers: floored, the sign of the divisor; zero divisor raises.\<close>

definition py_mod :: "int \<Rightarrow> int \<Rightarrow> pyerr + int" where
  "py_mod a b = (if b = 0 then Inl ZeroDivisionError else Inr (a mod b))"

text \<open>\<^verbatim>\<open>ys[j] = v\<close> on a list: in range it replaces the entry, otherwise it raises.\<close>

definition py_setitem :: "'a list \<Rightarrow> int \<Rightarrow> 'a \<Rightarrow> pyerr + 'a list" where
  "py_setitem ys j v =
     (if 0 \<le> j \<and> j < int (length ys) then Inr (ys[nat j := v])
      else if j < 0 \<and> - int (length ys) \<le> j then Inr (ys[nat (int (length ys) + j) := v])
      else Inl IndexError)"

text \<open>\<^verbatim>\<open>str(n)\<close> and the f-string rendering \<^verbatim>\<open>{n}\<close> of an integer: decimal digits.\<close>

fun str_nat :: "nat \<Rightarrow> string" where
  "str_nat n =
     (if n < 10 then [''0123456789'' ! n]
      else str_nat (n div 10) @ [''0123456789'' ! (n mod 10)])"

declare str_nat.simps [simp del]

definition py_str :: "int \<Rightarrow> string" where
  "py_str v = (if v < 0 then CHR ''-'' # str_nat (nat (- v)) else str_nat (nat v))"

text \<open>\<^verbatim>\<open>s.count(c)\<close> for a one-character needle.\<close>

definition str_count :: "string \<Rightarrow> char \<Rightarrow> int" where
  "str_count s c = int (length (filter (\<lambda>x. x = c) s))"

text \<open>\<^verbatim>\<open>ord(c)\<close>.\<close>

definition ord :: "char \<Rightarrow> int" where
  "ord c = int (of_char c)"

text \<open>\<^verbatim>\<open>sep.join(parts)\<close>.\<close>

fun str_join :: "string \<Rightarrow> string list \<Rightarrow> string" where
  "str_join sep [] = []"
| "str_join sep [p] = p"
| "str_join sep (p # q # ps) = p @ sep @ str_join sep (q # ps)"

section \<open>The update rules\<close>

subsection \<open>code-1-top-digit-inventory4.py\<close>

definition update_inventory :: "string \<Rightarrow> int \<Rightarrow> string" where
  "update_inventory s i =
     (let c0 = str_count s CHR ''0'';
          c1 = str_count s CHR ''1'';
          c2 = str_count s CHR ''2'';
          c3 = str_count s CHR ''3'';
          c4 = str_count s CHR ''4''
      in if i mod 2 = 0
         then py_str ((c0 + 1) mod 5) @ py_str ((c1 + 2) mod 5) @ py_str ((c2 + 1) mod 5)
              @ py_str ((c3 + 1) mod 5) @ py_str c4
         else py_str ((c0 + 2) mod 5)
              @ py_str (if c1 \<ge> 3 then (c1 + 1) mod 5 else (2 * c1 + 1) mod 5)
              @ py_str ((c2 + 3) mod 5) @ py_str ((c3 + 1) mod 5) @ py_str c4)"

subsection \<open>code-3-top-rule90.py\<close>

text \<open>One pass of the loop body: the two ring neighbours of cell \<open>i\<close> and their XOR.\<close>

definition rule90_cell :: "string \<Rightarrow> int \<Rightarrow> pyerr + char" where
  "rule90_cell b i =
     (let L = int (length b) in
      case py_mod (i - 1) L of Inl e \<Rightarrow> Inl e | Inr il \<Rightarrow>
     (case py_index b il of Inl e \<Rightarrow> Inl e | Inr cl \<Rightarrow>
     (case py_mod (i + 1) L of Inl e \<Rightarrow> Inl e | Inr ir \<Rightarrow>
     (case py_index b ir of Inl e \<Rightarrow> Inl e | Inr cr \<Rightarrow>
        (let left = (if cl = CHR ''1'' then 1 else 0 :: int);
             right = (if cr = CHR ''1'' then 1 else 0 :: int)
         in Inr (if left XOR right \<noteq> 0 then CHR ''1'' else CHR ''0''))))))"

fun rule90_loop :: "string \<Rightarrow> nat list \<Rightarrow> string \<Rightarrow> pyerr + string" where
  "rule90_loop b [] out = Inr out"
| "rule90_loop b (i # rest) out =
     (case rule90_cell b (int i) of
        Inl e \<Rightarrow> Inl e
      | Inr c \<Rightarrow> rule90_loop b rest (out @ [c]))"

definition update_rule90 :: "string \<Rightarrow> pyerr + string" where
  "update_rule90 b = rule90_loop b [0..<length b] []"

subsection \<open>code-4-top-ducci-mod1000.py\<close>

text \<open>The right-hand side of the assignment \<^verbatim>\<open>y[j] = ...\<close>, evaluated left to right.\<close>

definition ducci_cell :: "int list \<Rightarrow> int \<Rightarrow> pyerr + int" where
  "ducci_cell x j =
     (let K = int (length x) in
      case (if j \<le> 2 then Inr j else py_mod (2 * j) K) of Inl e \<Rightarrow> Inl e | Inr idx1 \<Rightarrow>
     (case py_index x idx1 of Inl e \<Rightarrow> Inl e | Inr a \<Rightarrow>
     (case py_mod (if j \<le> 5 then j + 1 else j - 2) K of Inl e \<Rightarrow> Inl e | Inr idx2 \<Rightarrow>
     (case py_index x idx2 of Inl e \<Rightarrow> Inl e | Inr b \<Rightarrow>
        py_mod \<bar>a - b\<bar> 1000))))"

fun ducci_loop :: "int list \<Rightarrow> nat list \<Rightarrow> int list \<Rightarrow> pyerr + int list" where
  "ducci_loop x [] y = Inr y"
| "ducci_loop x (j # rest) y =
     (case ducci_cell x (int j) of
        Inl e \<Rightarrow> Inl e
      | Inr v \<Rightarrow>
         (case py_setitem y (int j) v of
            Inl e \<Rightarrow> Inl e
          | Inr y' \<Rightarrow> ducci_loop x rest y'))"

text \<open>The step index \<open>i\<close> is accepted and ignored, as in the source.\<close>

definition update_ducci :: "int list \<Rightarrow> int \<Rightarrow> pyerr + int list" where
  "update_ducci state i =
     (let x = state; K = length x; y = replicate K 0
      in ducci_loop x [0..<K] y)"

subsection \<open>code-5-top-affine2d.py\<close>

definition update_affine2d :: "int \<times> int \<times> int \<Rightarrow> int \<times> int \<times> int" where
  "update_affine2d state =
     (case state of (x, y, t) \<Rightarrow>
        (let nx = (2 * x + y + 5 + t) mod 200;
             ny = (3 * x + y + 7) mod 200;
             nt = (t + 1) mod 200
         in (nx, ny, nt)))"

subsection \<open>code-6-top-outindex-walk.py\<close>

definition DEFAULT_ADJ :: "int \<rightharpoonup> int list" where
  "DEFAULT_ADJ =
     map_of [(0, [1, 2]), (1, [2, 3, 4]), (2, [3, 0]), (3, [4, 5]), (4, [0, 2]), (5, [5])]"

text \<open>\<^verbatim>\<open>A[u]\<close> on a dict: a missing key raises \<^verbatim>\<open>KeyError\<close>.\<close>

definition dict_get :: "('k \<rightharpoonup> 'v) \<Rightarrow> 'k \<Rightarrow> pyerr + 'v" where
  "dict_get A u = (case A u of None \<Rightarrow> Inl KeyError | Some v \<Rightarrow> Inr v)"

definition update_outindex_walk ::
  "int \<times> int \<Rightarrow> int \<Rightarrow> (int \<rightharpoonup> int list) option \<Rightarrow> pyerr + int \<times> int" where
  "update_outindex_walk state i adj =
     (case state of (u, t) \<Rightarrow>
        (let A = (case adj of Some a \<Rightarrow> a | None \<Rightarrow> DEFAULT_ADJ) in
         case dict_get A u of Inl e \<Rightarrow> Inl e | Inr nbrs \<Rightarrow>
        (let deg = int (length nbrs) in
         case py_mod (t + u) deg of Inl e \<Rightarrow> Inl e | Inr idx \<Rightarrow>
        (case dict_get A u of Inl e \<Rightarrow> Inl e | Inr nbrs' \<Rightarrow>
        (case py_index nbrs' idx of Inl e \<Rightarrow> Inl e | Inr v \<Rightarrow>
           Inr (v, t + 1))))))"

subsection \<open>lang-shiritori-walk-small-dict.py\<close>

definition shiritori_candidates :: "char \<Rightarrow> string list \<Rightarrow> string list" where
  "shiritori_candidates last_char D = sort (filter (\<lambda>w. w \<noteq> [] \<and> hd w = last_char) D)"

definition shiritori_step :: "string \<Rightarrow> string list \<Rightarrow> pyerr + string" where
  "shiritori_step current_word D =
     (if current_word = [] then Inr current_word
      else
        case py_index current_word (- 1) of Inl e \<Rightarrow> Inl e | Inr last_char \<Rightarrow>
        (let candidates = shiritori_candidates last_char D in
         if candidates = [] then Inr current_word
         else
           (let s = sum_list (map ord current_word) in
            case py_mod s (int (length candidates)) of Inl e \<Rightarrow> Inl e | Inr k \<Rightarrow>
              py_index candidates k)))"

definition D :: "string list" where
  "D = [''alas'', ''basic'', ''candid'', ''dill'', ''elf'', ''fang'', ''graph'', ''haji'',
        ''improv'', ''jazz'', ''kebab'', ''laptop'', ''mule'', ''new'', ''oven'', ''prism'',
        ''quipu'', ''raj'', ''suq'', ''taco'', ''ugly'', ''vex'', ''war'', ''xyst'', ''yolk'',
        ''zebra'']"

definition w0 :: string where
  "w0 = ''alas''"

section \<open>The world a generator runs in\<close>

text \<open>
  What a run does besides computing: it prints lines, creates the data directory, opens
  the output file for writing (which creates or truncates it) and appends text to it.
  The world records the files, the directories and the effects in the order they
  happened.  The file system of the model never refuses an operation.
\<close>

datatype event =
    EvPrint string
  | EvMkdir string
  | EvOpen string
  | EvWrite string string

record world =
  files :: "string \<rightharpoonup> string"
  dirs :: "string set"
  events :: "event list"

definition py_print :: "string \<Rightarrow> world \<Rightarrow> world" where
  "py_print s w = w\<lparr>events := events w @ [EvPrint s]\<rparr>"

text \<open>\<^verbatim>\<open>DATA_SAVE_DIR.mkdir(parents=True, exist_ok=True)\<close>.\<close>

definition mkdir :: "string \<Rightarrow> world \<Rightarrow> world" where
  "mkdir d w = w\<lparr>dirs := insert d (dirs w), events := events w @ [EvMkdir d]\<rparr>"

text \<open>\<^verbatim>\<open>open(path, "w", encoding="utf-8")\<close>: the file exists and is empty afterwards.\<close>

definition open_w :: "string \<Rightarrow> world \<Rightarrow> world" where
  "open_w path w = w\<lparr>files := (files w)(path \<mapsto> []), events := events w @ [EvOpen path]\<rparr>"

text \<open>\<^verbatim>\<open>f.write(text)\<close> on the file opened at \<open>path\<close>.\<close>

definition file_write :: "string \<Rightarrow> string \<Rightarrow> world \<Rightarrow> world" where
  "file_write path txt w =
     w\<lparr>files := (files w)(path \<mapsto> (case files w path of None \<Rightarrow> [] | Some old \<Rightarrow> old) @ txt),
       events := events w @ [EvWrite path txt]\<rparr>"

text \<open>
  \<^verbatim>\<open>DATA_SAVE_DIR / args.out_path\<close> for an \<^verbatim>\<open>out_path\<close> that is a plain file name or an
  absolute path (an absolute right operand replaces the left one).  What \<^verbatim>\<open>pathlib\<close> does
  beyond that is not covered: it drops \<^verbatim>\<open>.\<close> components and repeated separators, and an
  empty \<^verbatim>\<open>out_path\<close> names the directory itself, which \<^verbatim>\<open>open\<close> refuses.
\<close>

definition path_join :: "string \<Rightarrow> string \<Rightarrow> string" where
  "path_join d p = (if p \<noteq> [] \<and> hd p = CHR ''/'' then p else d @ ''/'' @ p)"

section \<open>Records and their JSON lines\<close>

text \<open>
  A record is a Python dict literal with string keys; the values the generators store
  are integers and strings.  An association list keeps the keys in insertion order,
  which is the order \<^verbatim>\<open>json.dumps\<close> writes them in.
\<close>

datatype jval = JInt int | JStr string

type_synonym jobj = "(string \<times> jval) list"

definition hex4 :: "nat \<Rightarrow> string" where
  "hex4 n = [''0123456789abcdef'' ! (n div 4096 mod 16), ''0123456789abcdef'' ! (n div 256 mod 16),
             ''0123456789abcdef'' ! (n div 16 mod 16), ''0123456789abcdef'' ! (n mod 16)]"

text \<open>
  The escapes of \<^verbatim>\<open>json.dumps(..., ensure_ascii=False)\<close>: the quote, the backslash and
  every control character below 0x20 are escaped, everything else is written as it is.
\<close>

definition json_escape :: "char \<Rightarrow> string" where
  "json_escape c =
     (if c = CHR 0x22 then [CHR 0x5C, CHR 0x22]
      else if c = CHR 0x5C then [CHR 0x5C, CHR 0x5C]
      else if c = CHR 0x0A then [CHR 0x5C, CHR ''n'']
      else if c = CHR 0x0D then [CHR 0x5C, CHR ''r'']
      else if c = CHR 0x09 then [CHR 0x5C, CHR ''t'']
      else if c = CHR 0x08 then [CHR 0x5C, CHR ''b'']
      else if c = CHR 0x0C then [CHR 0x5C, CHR ''f'']
      else if (of_char c :: nat) < 32 then [CHR 0x5C, CHR ''u''] @ hex4 (of_char c)
      else [c])"

definition json_string :: "string \<Rightarrow> string" where
  "json_string s = [CHR 0x22] @ concat (map json_escape s) @ [CHR 0x22]"

fun json_value :: "jval \<Rightarrow> string" where
  "json_value (JInt n) = py_str n"
| "json_value (JStr s) = json_string s"

definition json_dumps :: "jobj \<Rightarrow> string" where
  "json_dumps rec =
     ''{'' @ str_join '', '' (map (\<lambda>(k, v). json_string k @ '': '' @ json_value v) rec) @ ''}''"

text \<open>The writer phase: \<^verbatim>\<open>for rec in dataset: f.write(json.dumps(rec, ...) + "\n")\<close>.\<close>

fun write_records :: "string \<Rightarrow> jobj list \<Rightarrow> world \<Rightarrow> world" where
  "write_records path [] w = w"
| "write_records path (rec # rest) w =
     write_records path rest (file_write path (json_dumps rec @ [CHR 0x0A]) w)"

section \<open>The generators with a deferred writer\<close>

text \<open>
  \<^verbatim>\<open>main()\<close> of code-1-top-digit-inventory4.py, code-3-top-rule90.py,
  code-4-top-ducci-mod1000.py, code-5-top-affine2d.py and code-6-top-outindex-walk.py is
  the same text up to the rule it calls, the seed, the type tag, the string it prints and
  stores, and the task template.  Those are the fields of a \<open>generator\<close>; the loop and the
  writer are modelled once.  The rendered prose of the task is a function of the step
  count; the runnable snippet inside it is modelled separately below.
\<close>

record 'st generator =
  TASK_TYPE :: string
  init_state :: 'st
  rule :: "'st \<Rightarrow> int \<Rightarrow> pyerr + 'st"
  ANSWER :: "'st \<Rightarrow> string"
  task_text :: "int \<Rightarrow> string"

text \<open>The local variables of \<^verbatim>\<open>main()\<close> that the loop assigns.\<close>

record 'st locals =
  updated_state :: "'st option"
  dataset :: "jobj list"

text \<open>
  One iteration of \<^verbatim>\<open>for i in range(args.num_step)\<close>.  In the \<^verbatim>\<open>else\<close> branch the rule
  receives \<^verbatim>\<open>updated_state\<close>; were it still \<^verbatim>\<open>None\<close>, the rule would raise on it.
\<close>

definition loop_body ::
  "'st generator \<Rightarrow> nat \<Rightarrow> 'st locals \<Rightarrow> world \<Rightarrow> (pyerr + 'st locals) \<times> world" where
  "loop_body G i l w =
     (let step = int i + 1 in
      case (if i = 0 then rule G (init_state G) (int i)
            else (case updated_state l of
                    None \<Rightarrow> Inl TypeError
                  | Some st \<Rightarrow> rule G st (int i))) of
        Inl e \<Rightarrow> (Inl e, w)
      | Inr st' \<Rightarrow>
          (let w' = py_print (ANSWER G st') w;
               data_line = [(''idx'', JInt step), (''type'', JStr (TASK_TYPE G)),
                            (''task'', JStr (task_text G step)), (''gt_ans'', JStr (ANSWER G st'))]
           in (Inr \<lparr>updated_state = Some st', dataset = dataset l @ [data_line]\<rparr>, w')))"

fun run_loop ::
  "'st generator \<Rightarrow> nat list \<Rightarrow> 'st locals \<Rightarrow> world \<Rightarrow> (pyerr + 'st locals) \<times> world" where
  "run_loop G [] l w = (Inr l, w)"
| "run_loop G (i # rest) l w =
     (case loop_body G i l w of
        (Inl e, w') \<Rightarrow> (Inl e, w')
      | (Inr l', w') \<Rightarrow> run_loop G rest l' w')"

text \<open>
  \<^verbatim>\<open>main()\<close>: the loop, then the directory, the file and the closing message.
  \<open>num_step\<close> is \<^verbatim>\<open>args.num_step\<close> (any integer; a \<^verbatim>\<open>range\<close> of a negative number
  is empty) and \<open>out_path\<close> is \<^verbatim>\<open>args.out_path\<close>.
\<close>

definition generator_main ::
  "'st generator \<Rightarrow> string \<Rightarrow> int \<Rightarrow> string \<Rightarrow> world \<Rightarrow> (pyerr + unit) \<times> world" where
  "generator_main G DATA_SAVE_DIR num_step out_path w =
     (case run_loop G [0..<nat num_step] \<lparr>updated_state = None, dataset = []\<rparr> w of
        (Inl e, w1) \<Rightarrow> (Inl e, w1)
      | (Inr l, w1) \<Rightarrow>
          (let w2 = mkdir DATA_SAVE_DIR w1;
               w3 = open_w (path_join DATA_SAVE_DIR out_path) w2;
               w4 = write_records (path_join DATA_SAVE_DIR out_path) (dataset l) w3;
               w5 = py_print (''Wrote '' @ py_str (int (length (dataset l))) @ '' records to ''
                              @ out_path) w4
           in (Inr (), w5)))"

text \<open>The five instances.  The task template is a parameter of each.\<close>

definition inventory_generator :: "(int \<Rightarrow> string) \<Rightarrow> string generator" where
  "inventory_generator template =
     \<lparr>TASK_TYPE = ''digit-inventory-4-fixed8'', init_state = ''01938'',
      rule = (\<lambda>s i. Inr (update_inventory s i)), ANSWER = (\<lambda>s. s), task_text = template\<rparr>"

definition rule90_generator :: "(int \<Rightarrow> string) \<Rightarrow> string generator" where
  "rule90_generator template =
     \<lparr>TASK_TYPE = ''rule90-ring'', init_state = ''0101011101001'',
      rule = (\<lambda>b i. update_rule90 b), ANSWER = (\<lambda>b. b), task_text = template\<rparr>"

text \<open>\<open>seed\<close> is the vector parsed from \<^verbatim>\<open>--init_state\<close>.\<close>

definition ducci_generator :: "int list \<Rightarrow> (int \<Rightarrow> string) \<Rightarrow> int list generator" where
  "ducci_generator seed template =
     \<lparr>TASK_TYPE = ''ducci-mod1000-cyclic'', init_state = seed,
      rule = update_ducci, ANSWER = (\<lambda>x. str_join [] (map py_str x)), task_text = template\<rparr>"

definition ducci_default_seed :: "int list" where
  "ducci_default_seed = [11, 5, 3, 16, 12, 1, 5, 8, 2]"

definition affine2d_generator :: "(int \<Rightarrow> string) \<Rightarrow> (int \<times> int \<times> int) generator" where
  "affine2d_generator template =
     \<lparr>TASK_TYPE = ''affine2d-stepbias-mod1000'', init_state = (1, 2, 0),
      rule = (\<lambda>st i. Inr (update_affine2d st)),
      ANSWER = (\<lambda>st. case st of (x, y, t) \<Rightarrow> py_str x @ '','' @ py_str y @ '','' @ py_str t),
      task_text = template\<rparr>"


section \<open>lang-shiritori-walk-small-dict.py: the walk and its writer\<close>

text \<open>
  The loop carries \<^verbatim>\<open>current_word\<close> (seeded with \<^verbatim>\<open>w0\<close>) and prints nothing;
  \<open>ds\<close> is the list \<^verbatim>\<open>dataset\<close>.  The step function is a parameter of the loop;
  \<^verbatim>\<open>main()\<close> is the instance with \<^verbatim>\<open>shiritori_step\<close>.
\<close>

fun shiritori_loop ::
  "(string \<Rightarrow> string list \<Rightarrow> pyerr + string) \<Rightarrow> (int \<Rightarrow> string) \<Rightarrow> nat list \<Rightarrow> string
     \<Rightarrow> jobj list \<Rightarrow> pyerr + string \<times> jobj list" where
  "shiritori_loop stepf template [] current_word ds = Inr (current_word, ds)"
| "shiritori_loop stepf template (i # rest) current_word ds =
     (case stepf current_word D of
        Inl e \<Rightarrow> Inl e
      | Inr cw \<Rightarrow>
          (let step = int i + 1;
               data_line = [(''idx'', JInt step), (''type'', JStr ''shiritori-walk-small-dict''),
                            (''task'', JStr (template step)), (''gt_ans'', JStr cw)]
           in shiritori_loop stepf template rest cw (ds @ [data_line])))"

definition shiritori_main_with ::
  "(string \<Rightarrow> string list \<Rightarrow> pyerr + string) \<Rightarrow> (int \<Rightarrow> string) \<Rightarrow> string \<Rightarrow> int \<Rightarrow> string
     \<Rightarrow> world \<Rightarrow> (pyerr + unit) \<times> world" where
  "shiritori_main_with stepf template DATA_SAVE_DIR num_step out_path w =
     (case shiritori_loop stepf template [0..<nat num_step] w0 [] of
        Inl e \<Rightarrow> (Inl e, w)
      | Inr (cw, ds) \<Rightarrow>
          (let w2 = mkdir DATA_SAVE_DIR w;
               w3 = open_w (path_join DATA_SAVE_DIR out_path) w2;
               w4 = write_records (path_join DATA_SAVE_DIR out_path) ds w3;
               w5 = py_print (''Wrote '' @ py_str (int (length ds)) @ '' records to ''
                              @ out_path) w4
           in (Inr (), w5)))"

definition shiritori_main ::
  "(int \<Rightarrow> string) \<Rightarrow> string \<Rightarrow> int \<Rightarrow> string \<Rightarrow> world \<Rightarrow> (pyerr + unit) \<times> world" where
  "shiritori_main = shiritori_main_with shiritori_step"

section \<open>sci-phys-memory-walk.py: the generator that writes as it goes\<close>









section \<open>The runnable snippets inside the task texts\<close>

text \<open>
  The task text of the code generators embeds a Python program that the reader is told
  to execute as it is.  A program run as a module resolves a name that its function does
  not assign in the module's globals and then in the builtins; a name found in neither
  raises \<^verbatim>\<open>NameError\<close>.  The globals are a map from names to values; the builtins the
  snippets call (\<^verbatim>\<open>len\<close>, \<^verbatim>\<open>range\<close>, \<^verbatim>\<open>abs\<close>, \<^verbatim>\<open>str\<close>, \<^verbatim>\<open>map\<close>) are the operations of the
  model, and no builtin is named \<^verbatim>\<open>i\<close> or \<^verbatim>\<open>j\<close>.
\<close>

datatype pyval = PInt int | PStr string | PList "int list" | PFun

type_synonym globals = "string \<rightharpoonup> pyval"

definition load_name :: "globals \<Rightarrow> string \<Rightarrow> pyerr + pyval" where
  "load_name g n = (case g n of None \<Rightarrow> Inl (NameError n) | Some v \<Rightarrow> Inr v)"

subsection \<open>The snippet of code-1-top-digit-inventory4.py (lines 68 to 85)\<close>

text \<open>
  \<^verbatim>\<open>def f(s)\<close>: the five counts are locals; \<^verbatim>\<open>i\<close> is not assigned in \<^verbatim>\<open>f\<close>, so the test
  \<^verbatim>\<open>i%2==0\<close> loads it from the globals.
\<close>

definition inventory_snippet_f :: "globals \<Rightarrow> string \<Rightarrow> pyerr + string" where
  "inventory_snippet_f g s =
     (let c0 = str_count s CHR ''0'';
          c1 = str_count s CHR ''1'';
          c2 = str_count s CHR ''2'';
          c3 = str_count s CHR ''3'';
          c4 = str_count s CHR ''4''
      in case load_name g ''i'' of
           Inl e \<Rightarrow> Inl e
         | Inr v \<Rightarrow>
            (case v of
               PInt i \<Rightarrow>
                 (if i mod 2 = 0
                  then Inr (py_str ((c0 + 1) mod 5) @ py_str ((c1 + 2) mod 5)
                            @ py_str ((c2 + 1) mod 5) @ py_str ((c3 + 1) mod 5) @ py_str c4)
                  else Inr (py_str ((c0 + 2) mod 5)
                            @ py_str (if c1 \<ge> 3 then (c1 + 1) mod 5 else (2 * c1 + 1) mod 5)
                            @ py_str ((c2 + 3) mod 5) @ py_str ((c3 + 1) mod 5) @ py_str c4))
             | _ \<Rightarrow> Inl TypeError))"

text \<open>\<^verbatim>\<open>for _ in range(N): s = f(s)\<close> at module level: \<^verbatim>\<open>_\<close> and \<^verbatim>\<open>s\<close> are globals.\<close>

fun inventory_snippet_loop :: "nat list \<Rightarrow> globals \<Rightarrow> pyerr + globals" where
  "inventory_snippet_loop [] g = Inr g"
| "inventory_snippet_loop (k # rest) g =
     (let g1 = g(''_'' \<mapsto> PInt (int k)) in
      case load_name g1 ''s'' of
        Inl e \<Rightarrow> Inl e
      | Inr sv \<Rightarrow>
         (case sv of
            PStr s \<Rightarrow>
              (case inventory_snippet_f g1 s of
                 Inl e \<Rightarrow> Inl e
               | Inr s' \<Rightarrow> inventory_snippet_loop rest (g1(''s'' \<mapsto> PStr s')))
          | _ \<Rightarrow> Inl TypeError))"

text \<open>The whole program for step count \<open>N\<close> and seed \<open>init\<close>; its value is \<^verbatim>\<open>ANSWER\<close>.\<close>

definition inventory_snippet :: "int \<Rightarrow> string \<Rightarrow> pyerr + pyval" where
  "inventory_snippet N init =
     (let g0 = [''N'' \<mapsto> PInt N, ''s'' \<mapsto> PStr init, ''f'' \<mapsto> PFun] in
      case inventory_snippet_loop [0..<nat N] g0 of
        Inl e \<Rightarrow> Inl e
      | Inr g \<Rightarrow> load_name g ''s'')"

subsection \<open>The snippet of code-4-top-ducci-mod1000.py (lines 77 to 90)\<close>

text \<open>
  \<^verbatim>\<open>def f(vec)\<close>: the loop variable is \<^verbatim>\<open>i\<close>, the right-hand side of the assignment
  reads \<^verbatim>\<open>j\<close>, which \<^verbatim>\<open>f\<close> does not assign: it is loaded from the globals.  With \<^verbatim>\<open>j\<close>
  bound the expression is the one of \<^verbatim>\<open>update_ducci\<close>.
\<close>

fun ducci_snippet_loop :: "globals \<Rightarrow> int list \<Rightarrow> nat list \<Rightarrow> int list \<Rightarrow> pyerr + int list" where
  "ducci_snippet_loop g vec [] out = Inr out"
| "ducci_snippet_loop g vec (i # rest) out =
     (case load_name g ''j'' of
        Inl e \<Rightarrow> Inl e
      | Inr jv \<Rightarrow>
         (case jv of
            PInt j \<Rightarrow>
              (case ducci_cell vec j of
                 Inl e \<Rightarrow> Inl e
               | Inr v \<Rightarrow>
                  (case py_setitem out (int i) v of
                     Inl e \<Rightarrow> Inl e
                   | Inr out' \<Rightarrow> ducci_snippet_loop g vec rest out'))
          | _ \<Rightarrow> Inl TypeError))"

definition ducci_snippet_f :: "globals \<Rightarrow> int list \<Rightarrow> pyerr + int list" where
  "ducci_snippet_f g vec =
     (let K = length vec; out = replicate K 0 in ducci_snippet_loop g vec [0..<K] out)"

fun ducci_snippet_outer :: "nat list \<Rightarrow> globals \<Rightarrow> pyerr + globals" where
  "ducci_snippet_outer [] g = Inr g"
| "ducci_snippet_outer (k # rest) g =
     (let g1 = g(''_'' \<mapsto> PInt (int k)) in
      case load_name g1 ''x'' of
        Inl e \<Rightarrow> Inl e
      | Inr xv \<Rightarrow>
         (case xv of
            PList x \<Rightarrow>
              (case ducci_snippet_f g1 x of
                 Inl e \<Rightarrow> Inl e
               | Inr x' \<Rightarrow> ducci_snippet_outer rest (g1(''x'' \<mapsto> PList x')))
          | _ \<Rightarrow> Inl TypeError))"

definition ducci_snippet :: "int \<Rightarrow> int list \<Rightarrow> pyerr + pyval" where
  "ducci_snippet N init =
     (let g0 = [''N'' \<mapsto> PInt N, ''x'' \<mapsto> PList init, ''f'' \<mapsto> PFun] in
      case ducci_snippet_outer [0..<nat N] g0 of
        Inl e \<Rightarrow> Inl e
      | Inr g \<Rightarrow>
         (case load_name g ''x'' of
            Inl e \<Rightarrow> Inl e
          | Inr xv \<Rightarrow>
             (case xv of
                PList x \<Rightarrow> Inr (PStr (str_join [] (map py_str x)))
              | _ \<Rightarrow> Inl TypeError)))"

section \<open>The record literals of the scripts\<close>

text \<open>
  The record of math-matrix-hard-v4.py (lines 64 to 77), with the matrix entries
  \<open>a b c d\<close> of \<^verbatim>\<open>updated_matrix\<close> and \<open>sum_answer\<close> their sum.
\<close>

definition matrix_data_line :: "int \<Rightarrow> string \<Rightarrow> int \<Rightarrow> int \<Rightarrow> int \<Rightarrow> int \<Rightarrow> int \<Rightarrow> jobj" where
  "matrix_data_line step task a b c d sum_answer =
     [(''idx'', JInt step), (''type'', JStr ''linear-monotonicity-matrix-harder''),
      (''task'', JStr task),
      (''gt_ans_latex'', JStr ([CHR 0x5C] @ ''( '' @ [CHR 0x5C] @ ''begin{bmatrix} '' @ py_str a
          @ '' & '' @ py_str b @ '' '' @ [CHR 0x5C, CHR 0x5C] @ '' '' @ py_str c @ '' & '' @ py_str d
          @ '' '' @ [CHR 0x5C] @ ''end{bmatrix} '' @ [CHR 0x5C] @ '')'')),
      (''gt_ans'', JInt sum_answer)]"

text \<open>
  The keys of the one record literal of each of the 39 scripts under
  \<^verbatim>\<open>LoRe-Bench/LoRe-Mono/scripts\<close>, in the order the literal lists them.
\<close>

definition script_record_keys :: "(string \<times> string list) list" where
  "script_record_keys =
     [(''code-1-top-digit-inventory4.py'', [''idx'', ''type'', ''task'', ''gt_ans'']),
      (''code-10-circ-conv-mod10.py'', [''idx'', ''type'', ''task'', ''gt_ans'']),
      (''code-2-top-rotating-caesar.py'', [''idx'', ''type'', ''task'', ''gt_ans'']),
      (''code-3-top-rule90.py'', [''idx'', ''type'', ''task'', ''gt_ans'']),
      (''code-4-top-ducci-mod1000.py'', [''idx'', ''type'', ''task'', ''gt_ans'']),
      (''code-5-top-affine2d.py'', [''idx'', ''type'', ''task'', ''gt_ans'']),
      (''code-6-top-outindex-walk.py'', [''idx'', ''type'', ''task'', ''gt_ans'']),
      (''code-7-top-deck8-outshuffle-add.py'', [''idx'', ''type'', ''task'', ''gt_ans'']),
      (''code-8-top-digit-rot-add.py'', [''idx'', ''type'', ''task'', ''gt_ans'']),
      (''code-9-top-torus-ant.py'', [''idx'', ''type'', ''task'', ''gt_ans'']),
      (''lang-10-rotating-lipogram-sieve.py'', [''idx'', ''type'', ''task'', ''gt_ans'']),
      (''lang-8-mirror-pointer-fixer.py'', [''idx'', ''type'', ''task'', ''gt_ans'']),
      (''lang-9-spoonerism-swap-walk.py'', [''idx'', ''type'', ''task'', ''gt_ans'']),
      (''lang-alliteration-scanner-cyclic.py'', [''idx'', ''type'', ''task'', ''gt_ans'']),
      (''lang-letter-maze.py'', [''idx'', ''type'', ''task'', ''gt_ans'']),
      (''lang-lexical-antonym-synonym-chain.py'', [''idx'', ''type'', ''task'', ''gt_ans'']),
      (''lang-morph-adhere-drop.py'', [''idx'', ''type'', ''task'', ''gt_ans'']),
      (''lang-phonology-cv-rotation.py'', [''idx'', ''type'', ''task'', ''gt_ans'']),
      (''lang-punct-letter-picker.py'', [''idx'', ''type'', ''task'', ''gt_ans'']),
      (''lang-shiritori-walk-small-dict.py'', [''idx'', ''type'', ''task'', ''gt_ans'']),
      (''math-2term-Fibonacci.py'', [''idx'', ''type'', ''task'', ''gt_ans'']),
      (''math-array-odd-swap.py'', [''idx'', ''type'', ''task'', ''gt_ans'']),
      (''math-boolean-rotflip-3x3.py'', [''idx'', ''type'', ''task'', ''gt_ans'']),
      (''math-cellular-automaton-v1.py'', [''idx'', ''type'', ''task'', ''gt_ans'']),
      (''math-complex_v1.py'', [''idx'', ''type'', ''task'', ''gt_ans'']),
      (''math-matrix-hard-v4.py'', [''idx'', ''type'', ''task'', ''gt_ans_latex'', ''gt_ans'']),
      (''math-piecewise.py'', [''idx'', ''type'', ''task'', ''gt_ans'']),
      (''math-rle-length-encoding.py'', [''idx'', ''type'', ''task'', ''gt_ans'']),
      (''math-tri-register-extreme-xor.py'', [''idx'', ''type'', ''task'', ''gt_ans'']),
      (''math-weighted-graph.py'', [''idx'', ''type'', ''task'', ''gt_ans'']),
      (''sci-bio-dna-mutation.py'', [''idx'', ''type'', ''task'', ''gt_ans'']),
      (''sci-bio-enzyme-cascade-fsm.py'', [''idx'', ''type'', ''task'', ''gt_ans'']),
      (''sci-bio-enzyme-cofactor.py'', [''idx'', ''type'', ''task'', ''gt_ans'']),
      (''sci-bio-transposon-hops.py'', [''idx'', ''type'', ''task'', ''gt_ans'']),
      (''sci-chem-titration.py'', [''idx'', ''type'', ''task'', ''gt_ans'']),
      (''sci-geo-belt-functional-graph.py'', [''idx'', ''type'', ''task'', ''gt_ans'']),
      (''sci-geo-torus-sampler.py'', [''idx'', ''type'', ''task'', ''gt_ans'']),
      (''sci-phys-memory-walk.py'', [''idx'', ''type'', ''task'', ''gt_ans'']),
      (''sci-phys-momentum-buckets.py'', [''idx'', ''type'', ''task'', ''gt_ans''])]"

text \<open>The scripts whose record has the key \<open>k\<close>.\<close>

definition scripts_with_key :: "string \<Rightarrow> string list" where
  "scripts_with_key k = map fst (filter (\<lambda>e. k \<in> set (snd e)) script_record_keys)"

section \<open>Observing records, files and runs\<close>

text \<open>The value a record stores under a key (\<^verbatim>\<open>rec[k]\<close>), and the lines of a file.\<close>

definition field :: "jobj \<Rightarrow> string \<Rightarrow> jval option" where
  "field rec k = map_of rec k"

text \<open>
  The lines of a text as a reader of the newline-delimited file sees them: every
  newline character ends a line.
\<close>

fun split_lines :: "string \<Rightarrow> string \<Rightarrow> string list" where
  "split_lines acc [] = (if acc = [] then [] else [acc])"
| "split_lines acc (c # cs) =
     (if c = CHR 0x0A then acc # split_lines [] cs else split_lines (acc @ [c]) cs)"

text \<open>The states a run of one or more updates reaches from a seed, one per step index.\<close>

fun inventory_run :: "string \<Rightarrow> int list \<Rightarrow> string" where
  "inventory_run s [] = s"
| "inventory_run s (i # rest) = inventory_run (update_inventory s i) rest"

text \<open>The string a record stores under \<^verbatim>\<open>gt_ans\<close>.\<close>

definition gt_str :: "jobj \<Rightarrow> string" where
  "gt_str rec = (case field rec ''gt_ans'' of Some (JStr s) \<Rightarrow> s | _ \<Rightarrow> [])"

text \<open>A world with no file, no directory and no effect yet.\<close>

definition empty_world :: world where
  "empty_world = \<lparr>files = Map.empty, dirs = {}, events = []\<rparr>"

text \<open>
  The state after \<open>k\<close> passes of a loop whose rule \<open>f\<close> cannot raise: pass number \<open>k\<close>
  (counted from 0) applies \<open>f\<close> with the loop index \<open>k\<close>.
\<close>

fun iterate_rule :: "('st \<Rightarrow> int \<Rightarrow> 'st) \<Rightarrow> 'st \<Rightarrow> nat \<Rightarrow> 'st" where
  "iterate_rule f init 0 = init"
| "iterate_rule f init (Suc k) = f (iterate_rule f init k) (int k)"

section \<open>Properties of the primitive operations\<close>

lemma py_mod_nonzero: "b \<noteq> 0 \<Longrightarrow> py_mod a b = Inr (a mod b)"
  by (simp add: py_mod_def)

lemma py_index_range: "0 \<le> i \<Longrightarrow> i < int (length xs) \<Longrightarrow> py_index xs i = Inr (xs ! nat i)"
  by (simp add: py_index_def)

lemma py_setitem_nat: "j < length ys \<Longrightarrow> py_setitem ys (int j) v = Inr (ys[j := v])"
  by (simp add: py_setitem_def)

lemma py_index_mod:
  assumes "xs \<noteq> []"
  shows "py_index xs (a mod int (length xs)) = Inr (xs ! nat (a mod int (length xs)))"
proof -
  have "0 < int (length xs)" using assms by simp
  then have "0 \<le> a mod int (length xs)" "a mod int (length xs) < int (length xs)"
    by simp_all
  then show ?thesis by (rule py_index_range)
qed

subsection \<open>Rule 90 never raises and keeps the shape of its input\<close>

lemma rule90_cell_ok:
  assumes "b \<noteq> []"
  shows "\<exists>c. rule90_cell b i = Inr c \<and> (c = CHR ''0'' \<or> c = CHR ''1'')"
proof -
  have L: "int (length b) \<noteq> 0" using assms by simp
  show ?thesis
    unfolding rule90_cell_def Let_def
    by (simp add: py_mod_nonzero [OF L] py_index_mod [OF assms])
qed

lemma rule90_loop_ok:
  assumes "b \<noteq> [] \<or> js = []" and "set out \<subseteq> {CHR ''0'', CHR ''1''}"
  shows "\<exists>out'. rule90_loop b js out = Inr out' \<and> length out' = length out + length js
           \<and> set out' \<subseteq> {CHR ''0'', CHR ''1''}"
  using assms
proof (induction js arbitrary: out)
  case Nil
  then show ?case by simp
next
  case (Cons j js)
  then have ne: "b \<noteq> []" by simp
  from rule90_cell_ok [OF ne, of "int j"] obtain c
    where c: "rule90_cell b (int j) = Inr c" "c = CHR ''0'' \<or> c = CHR ''1''" by blast
  have "set (out @ [c]) \<subseteq> {CHR ''0'', CHR ''1''}" using Cons.prems(2) c(2) by auto
  from Cons.IH [OF _ this] ne obtain out'
    where "rule90_loop b js (out @ [c]) = Inr out'" "length out' = length (out @ [c]) + length js"
      "set out' \<subseteq> {CHR ''0'', CHR ''1''}" by blast
  then show ?case using c(1) by simp
qed

lemma update_rule90_ok:
  "\<exists>out. update_rule90 b = Inr out \<and> length out = length b \<and> set out \<subseteq> {CHR ''0'', CHR ''1''}"
proof -
  have "b \<noteq> [] \<or> [0..<length b] = []" by auto
  from rule90_loop_ok [OF this, of "[]"] show ?thesis
    by (simp add: update_rule90_def)
qed

subsection \<open>The Ducci rule never raises and stays below 1000\<close>

lemma ducci_cell_ok:
  assumes "j < length x"
  shows "\<exists>v. ducci_cell x (int j) = Inr v \<and> 0 \<le> v \<and> v < 1000"
proof -
  have ne: "x \<noteq> []" using assms by auto
  have L: "int (length x) \<noteq> 0" using ne by simp
  have j: "py_index x (int j) = Inr (x ! j)" using assms by (simp add: py_index_def)
  show ?thesis
    unfolding ducci_cell_def Let_def
    by (simp add: py_mod_nonzero [OF L] py_index_mod [OF ne] j py_mod_def ne)
qed

lemma ducci_loop_ok:
  assumes "\<forall>j\<in>set js. j < length x \<and> j < length y" and "\<forall>v\<in>set y. 0 \<le> v \<and> v < 1000"
  shows "\<exists>y'. ducci_loop x js y = Inr y' \<and> length y' = length y \<and> (\<forall>v\<in>set y'. 0 \<le> v \<and> v < 1000)"
  using assms
proof (induction js arbitrary: y)
  case Nil
  then show ?case by simp
next
  case (Cons j js)
  then have jx: "j < length x" and jy: "j < length y" by simp_all
  from ducci_cell_ok [OF jx] obtain v
    where v: "ducci_cell x (int j) = Inr v" "0 \<le> v" "v < 1000" by blast
  have set: "py_setitem y (int j) v = Inr (y[j := v])" using jy by (rule py_setitem_nat)
  have "\<forall>u\<in>set (y[j := v]). 0 \<le> u \<and> u < 1000"
  proof
    fix u assume "u \<in> set (y[j := v])"
    then have "u \<in> insert v (set y)" using set_update_subset_insert by fastforce
    then show "0 \<le> u \<and> u < 1000" using v Cons.prems(2) by auto
  qed
  moreover have "\<forall>k\<in>set js. k < length x \<and> k < length (y[j := v])" using Cons.prems(1) by simp
  ultimately obtain y' where "ducci_loop x js (y[j := v]) = Inr y'" "length y' = length (y[j := v])"
    "\<forall>u\<in>set y'. 0 \<le> u \<and> u < 1000" using Cons.IH by blast
  then show ?case using v(1) set by simp
qed

lemma update_ducci_ok:
  "\<exists>y. update_ducci x i = Inr y \<and> length y = length x \<and> (\<forall>v\<in>set y. 0 \<le> v \<and> v < 1000)"
proof -
  have "\<forall>j\<in>set [0..<length x]. j < length x \<and> j < length (replicate (length x) (0::int))" by simp
  moreover have "\<forall>v\<in>set (replicate (length x) (0::int)). 0 \<le> v \<and> v < 1000" by simp
  ultimately show ?thesis
    using ducci_loop_ok [of "[0..<length x]" x "replicate (length x) 0"]
    by (simp add: update_ducci_def Let_def)
qed

lemma update_affine2d_ok:
  "case update_affine2d st of (nx, ny, nt) \<Rightarrow>
     0 \<le> nx \<and> nx < 200 \<and> 0 \<le> ny \<and> ny < 200 \<and> 0 \<le> nt \<and> nt < 200"
  by (cases st) (simp add: update_affine2d_def)


lemma py_index_last: "xs \<noteq> [] \<Longrightarrow> py_index xs (- 1) = Inr (last xs)"
proof (cases xs rule: rev_cases)
  case Nil
  assume "xs \<noteq> []"
  with Nil show ?thesis by simp
next
  case (snoc ys y)
  then show ?thesis by (simp add: py_index_def)
qed

lemma str_nat_digit: "n < 10 \<Longrightarrow> str_nat n = [''0123456789'' ! n]"
  by (simp add: str_nat.simps)

lemma py_str_digit: "0 \<le> v \<Longrightarrow> v < 10 \<Longrightarrow> py_str v = [''0123456789'' ! nat v]"
  by (simp add: py_str_def str_nat_digit)

lemma update_inventory_seed_even: "update_inventory ''01938'' 0 = ''23120''"
  by (simp add: update_inventory_def str_count_def py_str_def str_nat.simps)

lemma update_inventory_seed_odd: "update_inventory ''01938'' 1 = ''33320''"
  by (simp add: update_inventory_def str_count_def py_str_def str_nat.simps)

lemma update_ducci_seed: "update_ducci ducci_default_seed i = Inr [6, 2, 13, 7, 1, 0, 4, 0, 3]"
  by (simp add: update_ducci_def ducci_default_seed_def ducci_cell_def py_mod_def py_index_def
      py_setitem_def upt_conv_Cons)

lemma update_rule90_seed: "update_rule90 ''0101011101001'' = Inr ''0000010100110''"
  by (simp add: update_rule90_def rule90_cell_def py_mod_def py_index_def upt_conv_Cons)

lemma candidates_alas: "shiritori_candidates CHR ''s'' D = [''suq'']"
  by (simp add: shiritori_candidates_def D_def)

section \<open>The claims about single rule applications\<close>

text \<open>
  Claim C3: with seed "01938", step 1 of the digit-inventory generator (loop index 0, the
  even branch of \<open>update_inventory\<close>) produces an 8-character string built from the counts
  of '0', '1', '2', '3' in the seed, each taken mod 5 with the offsets +1, +2, +1, +1, with
  the count of '4' appended.  The docstring of \<open>update_inventory\<close> promises that length too:
  two decimal digits for each count, an 8-character result.  At the seed the function
  uses the counts, the offsets and the modulus of the claim, prints each of the five
  numbers with one digit and returns "23120": 5 characters, not 8.  The first record of
  the generator stores that string.
\<close>

theorem inventory_step1:
  "update_inventory ''01938'' 0
     = py_str ((str_count ''01938'' CHR ''0'' + 1) mod 5) @ py_str ((str_count ''01938'' CHR ''1'' + 2) mod 5)
       @ py_str ((str_count ''01938'' CHR ''2'' + 1) mod 5) @ py_str ((str_count ''01938'' CHR ''3'' + 1) mod 5)
       @ py_str (str_count ''01938'' CHR ''4'')
   \<and> update_inventory ''01938'' 0 = ''23120''
   \<and> length (update_inventory ''01938'' 0) = 5
   \<and> length (update_inventory ''01938'' 0) \<noteq> 8
   \<and> fst (run_loop (inventory_generator template) [0..<1] \<lparr>updated_state = None, dataset = []\<rparr> w)
       = Inr \<lparr>updated_state = Some ''23120'',
              dataset = [[(''idx'', JInt 1), (''type'', JStr ''digit-inventory-4-fixed8''),
                          (''task'', JStr (template 1)), (''gt_ans'', JStr ''23120'')]]\<rparr>"
proof -
  have a: "update_inventory ''01938'' 0 = ''23120''" by (rule update_inventory_seed_even)
  have b: "py_str ((str_count ''01938'' CHR ''0'' + 1) mod 5) @ py_str ((str_count ''01938'' CHR ''1'' + 2) mod 5)
       @ py_str ((str_count ''01938'' CHR ''2'' + 1) mod 5) @ py_str ((str_count ''01938'' CHR ''3'' + 1) mod 5)
       @ py_str (str_count ''01938'' CHR ''4'') = ''23120''"
    by (simp add: str_count_def py_str_def str_nat.simps)
  have c: "fst (run_loop (inventory_generator template) [0..<1] \<lparr>updated_state = None, dataset = []\<rparr> w)
       = Inr \<lparr>updated_state = Some ''23120'',
              dataset = [[(''idx'', JInt 1), (''type'', JStr ''digit-inventory-4-fixed8''),
                          (''task'', JStr (template 1)), (''gt_ans'', JStr ''23120'')]]\<rparr>"
    by (simp add: loop_body_def inventory_generator_def a)
  show ?thesis using a b c by simp
qed

text \<open>
  Claim C4: for the seed [11,5,3,16,12,1,5,8,2], one application of \<open>update_ducci\<close>
  returns the vector whose entry \<open>j\<close> is \<open>abs(x[idx1] - x[idx2]) % 1000\<close> with
  \<open>idx1 = j if j <= 2 else (2*j) % 9\<close> and \<open>idx2 = (j+1) % 9 if j <= 5 else (j-2) % 9\<close>,
  which is [6,2,13,7,1,0,4,0,3] and differs from the textbook Ducci vector
  \<open>abs(x[j] - x[(j+1) % 9])\<close>.
\<close>

theorem ducci_seed_index_remapped:
  "update_ducci ducci_default_seed i
     = Inr (map (\<lambda>j. \<bar>ducci_default_seed ! (if j \<le> 2 then j else (2 * j) mod 9)
                      - ducci_default_seed ! (if j \<le> 5 then (j + 1) mod 9 else (j - 2) mod 9)\<bar> mod 1000)
              [0..<9])
   \<and> update_ducci ducci_default_seed i = Inr [6, 2, 13, 7, 1, 0, 4, 0, 3]
   \<and> update_ducci ducci_default_seed i
     \<noteq> Inr (map (\<lambda>j. \<bar>ducci_default_seed ! j - ducci_default_seed ! ((j + 1) mod 9)\<bar>) [0..<9])"
proof -
  have a: "map (\<lambda>j. \<bar>ducci_default_seed ! (if j \<le> 2 then j else (2 * j) mod 9)
                      - ducci_default_seed ! (if j \<le> 5 then (j + 1) mod 9 else (j - 2) mod 9)\<bar> mod 1000)
              [0..<9] = [6, 2, 13, 7, 1, 0, 4, 0, 3]"
    by (simp add: ducci_default_seed_def upt_conv_Cons)
  have b: "map (\<lambda>j. \<bar>ducci_default_seed ! j - ducci_default_seed ! ((j + 1) mod 9)\<bar>) [0..<9]
             = [6, 2, 13, 4, 11, 4, 3, 6, 9]"
    by (simp add: ducci_default_seed_def upt_conv_Cons)
  show ?thesis unfolding a b by (simp add: update_ducci_seed)
qed

text \<open>
  Claim C7: every component of the vector \<open>update_ducci\<close> returns lies in [0, 1000),
  every component of the triple \<open>update_affine2d\<close> returns lies in [0, 200), and
  \<open>update_rule90\<close> returns a string of the length of its input whose characters are '0'
  or '1'.  The three hold for every input, hence at every step of every simulation;
  \<open>update_ducci\<close> and \<open>update_rule90\<close> return on every input.
\<close>

theorem range_validity:
  "(\<exists>y. update_ducci x i = Inr y \<and> length y = length x \<and> (\<forall>v\<in>set y. 0 \<le> v \<and> v < 1000))
   \<and> (case update_affine2d st of (nx, ny, nt) \<Rightarrow>
        0 \<le> nx \<and> nx < 200 \<and> 0 \<le> ny \<and> ny < 200 \<and> 0 \<le> nt \<and> nt < 200)
   \<and> (\<exists>out. update_rule90 b = Inr out \<and> length out = length b
          \<and> (\<forall>c\<in>set out. c = CHR ''0'' \<or> c = CHR ''1''))"
proof -
  from update_rule90_ok [of b] obtain out
    where "update_rule90 b = Inr out" "length out = length b" "set out \<subseteq> {CHR ''0'', CHR ''1''}"
    by blast
  then have "\<exists>out. update_rule90 b = Inr out \<and> length out = length b
          \<and> (\<forall>c\<in>set out. c = CHR ''0'' \<or> c = CHR ''1'')" by blast
  then show ?thesis using update_ducci_ok [of x i] update_affine2d_ok [of st] by blast
qed

theorem range_validity_witness:
  "update_ducci ducci_default_seed 0 = Inr [6, 2, 13, 7, 1, 0, 4, 0, 3]
   \<and> list_all (\<lambda>v. 0 \<le> v \<and> v < 1000) [6, 2, 13, 7, 1, 0, 4, 0, 3 :: int]
   \<and> update_affine2d (1, 2, 0) = (9, 12, 1)
   \<and> update_rule90 ''0101011101001'' = Inr ''0000010100110''
   \<and> list_all (\<lambda>c. c = CHR ''0'' \<or> c = CHR ''1'') ''0000010100110''"
  using range_validity [of ducci_default_seed 0 "(1, 2, 0)" "''0101011101001''"]
  by (simp add: update_ducci_seed update_rule90_seed update_affine2d_def)

text \<open>
  Claim C8: in the walk on the 26-word dictionary from "alas", the words of the
  dictionary that start with 's', the last character of "alas", are exactly "suq"; so
  the first step yields "suq" whatever the checksum \<open>s\<close> is, and the first record stores
  it.
\<close>

theorem shiritori_first_step:
  "shiritori_candidates (last w0) D = [''suq'']
   \<and> shiritori_step w0 D = Inr ''suq''
   \<and> py_mod s (int (length (shiritori_candidates (last w0) D))) = Inr 0
   \<and> py_index (shiritori_candidates (last w0) D) 0 = Inr ''suq''
   \<and> shiritori_loop shiritori_step template [0..<1] w0 []
       = Inr (''suq'', [[(''idx'', JInt 1), (''type'', JStr ''shiritori-walk-small-dict''),
                        (''task'', JStr (template 1)), (''gt_ans'', JStr ''suq'')]])"
proof -
  have l: "last w0 = CHR ''s''" by (simp add: w0_def)
  have st: "shiritori_step w0 D = Inr ''suq''"
    by (simp add: shiritori_step_def w0_def py_index_def candidates_alas py_mod_def)
  show ?thesis
    by (simp add: l candidates_alas st py_mod_def py_index_def)
qed

text \<open>
  Claim C5, as the specification states it: in every rule an empty candidate list is a
  fatal error.  \<open>shiritori_step\<close> on a word whose last character starts no word of the
  dictionary returns the word.
\<close>

theorem shiritori_empty_candidates_returns:
  "shiritori_candidates (last ''ab'') [''ab'', ''cd''] = []
   \<and> shiritori_step ''ab'' [''ab'', ''cd''] = Inr ''ab''"
  by (simp add: shiritori_step_def shiritori_candidates_def py_index_def)

text \<open>
  Claim C5, amended: \<open>shiritori_step\<close> does not raise on an empty candidate list (nor
  on an empty word): it returns the current word unchanged.  A rule that indexes its
  table without a guard does raise: \<open>update_outindex_walk\<close> raises \<open>KeyError\<close> on a node that
  is not a key of the adjacency and \<open>ZeroDivisionError\<close> on a node whose neighbour list
  is empty.
\<close>

theorem empty_candidates_behaviour:
  "shiritori_step [] dict = Inr []
   \<and> (w \<noteq> [] \<longrightarrow> shiritori_candidates (last w) dict = [] \<longrightarrow> shiritori_step w dict = Inr w)
   \<and> (A u = None \<longrightarrow> update_outindex_walk (u, t) i (Some A) = Inl KeyError)
   \<and> (A u = Some [] \<longrightarrow> update_outindex_walk (u, t) i (Some A) = Inl ZeroDivisionError)
   \<and> (DEFAULT_ADJ u = None \<longrightarrow> update_outindex_walk (u, t) i None = Inl KeyError)"
  by (simp add: shiritori_step_def py_index_last update_outindex_walk_def dict_get_def py_mod_def)

theorem empty_candidates_behaviour_witness:
  "''a1'' \<noteq> [] \<and> shiritori_candidates (last ''a1'') D = [] \<and> shiritori_step ''a1'' D = Inr ''a1''
   \<and> DEFAULT_ADJ 7 = None \<and> update_outindex_walk (7, 0) 0 None = Inl KeyError
   \<and> [1 \<mapsto> []] (1::int) = Some ([] :: int list)
   \<and> update_outindex_walk (1, 0) 0 (Some [1 \<mapsto> []]) = Inl ZeroDivisionError
   \<and> [1 \<mapsto> ([] :: int list)] (7::int) = None
   \<and> update_outindex_walk (7, 0) 0 (Some [1 \<mapsto> []]) = Inl KeyError"
proof -
  have c: "shiritori_candidates (last ''a1'') D = []"
    by (simp add: shiritori_candidates_def D_def)
  have d: "DEFAULT_ADJ 7 = None" by (simp add: DEFAULT_ADJ_def)
  show ?thesis
    using c d empty_candidates_behaviour [of D "''a1''" DEFAULT_ADJ 7 0 0]
      empty_candidates_behaviour [of D "''a1''" "[1 \<mapsto> []]" 1 0 0]
      empty_candidates_behaviour [of D "''a1''" "[1 \<mapsto> []]" 7 0 0]
    by simp
qed

section \<open>The digit inventory keeps five digits\<close>

lemma str_count_bounds: "0 \<le> str_count s c \<and> str_count s c \<le> int (length s)"
  by (simp add: str_count_def)

lemma py_str_digit_props:
  assumes "0 \<le> v" "v < 10"
  shows "length (py_str v) = 1" and "set (py_str v) \<subseteq> set ''0123456789''"
proof -
  have n: "nat v < 10" using assms by simp
  have eq: "py_str v = [''0123456789'' ! nat v]" using assms by (rule py_str_digit)
  show "length (py_str v) = 1" by (simp add: eq)
  have "''0123456789'' ! nat v \<in> set ''0123456789''"
    by (rule nth_mem) (use n in simp)
  then show "set (py_str v) \<subseteq> set ''0123456789''" by (simp only: eq) simp
qed

lemma update_inventory_shape:
  assumes len: "length s = 5"
  shows "\<exists>a b c d. update_inventory s i
             = py_str a @ py_str b @ py_str c @ py_str d @ py_str (str_count s CHR ''4'')
           \<and> 0 \<le> a \<and> a < 5 \<and> 0 \<le> b \<and> b < 5 \<and> 0 \<le> c \<and> c < 5 \<and> 0 \<le> d \<and> d < 5"
  by (cases "i mod 2 = 0") (auto simp add: update_inventory_def Let_def intro!: exI)

lemma five_digits:
  assumes "0 \<le> a" "a < 5" "0 \<le> b" "b < 5" "0 \<le> c" "c < 5" "0 \<le> d" "d < 5" "0 \<le> e" "e \<le> 9"
  shows "length (py_str a @ py_str b @ py_str c @ py_str d @ py_str e) = 5"
    and "set (py_str a @ py_str b @ py_str c @ py_str d @ py_str e) \<subseteq> set ''0123456789''"
proof -
  have l: "length (py_str a) = 1" "length (py_str b) = 1" "length (py_str c) = 1"
    "length (py_str d) = 1" "length (py_str e) = 1"
    using assms by (simp_all add: py_str_digit_props(1))
  show "length (py_str a @ py_str b @ py_str c @ py_str d @ py_str e) = 5"
    by (simp add: l)
  have s: "set (py_str a) \<subseteq> set ''0123456789''" "set (py_str b) \<subseteq> set ''0123456789''"
    "set (py_str c) \<subseteq> set ''0123456789''" "set (py_str d) \<subseteq> set ''0123456789''"
    "set (py_str e) \<subseteq> set ''0123456789''"
    using assms by (simp_all only: py_str_digit_props(2))
  show "set (py_str a @ py_str b @ py_str c @ py_str d @ py_str e) \<subseteq> set ''0123456789''"
    using s by (simp only: set_append Un_subset_iff)
qed

lemma update_inventory_length:
  assumes len: "length s = 5"
  shows "length (update_inventory s i) = 5"
proof -
  from update_inventory_shape [OF len, of i] obtain a b c d where
    eq: "update_inventory s i = py_str a @ py_str b @ py_str c @ py_str d @ py_str (str_count s CHR ''4'')"
    and r: "0 \<le> a" "a < 5" "0 \<le> b" "b < 5" "0 \<le> c" "c < 5" "0 \<le> d" "d < 5" by blast
  have e: "0 \<le> str_count s CHR ''4''" "str_count s CHR ''4'' \<le> 9"
    using str_count_bounds [of s "CHR ''4''"] len by simp_all
  show ?thesis unfolding eq using five_digits(1) [OF r e] .
qed

lemma inventory_run_snoc:
  "inventory_run s (xs @ [i]) = update_inventory (inventory_run s xs) i"
  by (induction xs arbitrary: s) simp_all

lemma inventory_run_length: "length s = 5 \<Longrightarrow> length (inventory_run s xs) = 5"
  by (induction xs arbitrary: s) (simp_all add: update_inventory_length)

text \<open>
  Claim C10: from the seed "01938", every state reached by one or more applications of
  \<open>update_inventory\<close>, with any sequence of step indices, is a string of exactly 5
  decimal digits: four single digits below 5 and the single-digit count of '4' in the
  state before, which is at most 9.
\<close>

theorem inventory_reachable_shape:
  assumes "steps \<noteq> []"
  shows "\<exists>a b c d c4.
           inventory_run ''01938'' steps = py_str a @ py_str b @ py_str c @ py_str d @ py_str c4
         \<and> 0 \<le> a \<and> a < 5 \<and> 0 \<le> b \<and> b < 5 \<and> 0 \<le> c \<and> c < 5 \<and> 0 \<le> d \<and> d < 5
         \<and> c4 = str_count (inventory_run ''01938'' (butlast steps)) CHR ''4''
         \<and> 0 \<le> c4 \<and> c4 \<le> 9
         \<and> length (py_str a) = 1 \<and> length (py_str b) = 1 \<and> length (py_str c) = 1
         \<and> length (py_str d) = 1 \<and> length (py_str c4) = 1
         \<and> length (inventory_run ''01938'' steps) = 5
         \<and> (\<forall>ch\<in>set (inventory_run ''01938'' steps). ch \<in> set ''0123456789'')"
proof -
  define prev where "prev = inventory_run ''01938'' (butlast steps)"
  have len: "length prev = 5" unfolding prev_def by (rule inventory_run_length) simp
  have "steps = butlast steps @ [last steps]" using assms by simp
  then have "inventory_run ''01938'' steps = inventory_run ''01938'' (butlast steps @ [last steps])"
    by simp
  then have run: "inventory_run ''01938'' steps = update_inventory prev (last steps)"
    by (simp only: inventory_run_snoc prev_def)
  from update_inventory_shape [OF len, of "last steps"] obtain a b c d where
    eq: "update_inventory prev (last steps)
           = py_str a @ py_str b @ py_str c @ py_str d @ py_str (str_count prev CHR ''4'')"
    and r: "0 \<le> a" "a < 5" "0 \<le> b" "b < 5" "0 \<le> c" "c < 5" "0 \<le> d" "d < 5" by blast
  have e: "0 \<le> str_count prev CHR ''4''" "str_count prev CHR ''4'' \<le> 9"
    using str_count_bounds [of prev "CHR ''4''"] len by simp_all
  have l1: "length (py_str a) = 1" "length (py_str b) = 1" "length (py_str c) = 1"
    "length (py_str d) = 1" "length (py_str (str_count prev CHR ''4'')) = 1"
    using r e by (simp_all add: py_str_digit_props(1))
  have l5: "length (inventory_run ''01938'' steps) = 5"
    unfolding run eq using five_digits(1) [OF r e] .
  have dg: "\<forall>ch\<in>set (inventory_run ''01938'' steps). ch \<in> set ''0123456789''"
    unfolding run eq using five_digits(2) [OF r e] by blast
  have full: "inventory_run ''01938'' steps
      = py_str a @ py_str b @ py_str c @ py_str d @ py_str (str_count prev CHR ''4'')"
    using run eq by simp
  have "inventory_run ''01938'' steps
          = py_str a @ py_str b @ py_str c @ py_str d @ py_str (str_count prev CHR ''4'')
         \<and> 0 \<le> a \<and> a < 5 \<and> 0 \<le> b \<and> b < 5 \<and> 0 \<le> c \<and> c < 5 \<and> 0 \<le> d \<and> d < 5
         \<and> str_count prev CHR ''4'' = str_count (inventory_run ''01938'' (butlast steps)) CHR ''4''
         \<and> 0 \<le> str_count prev CHR ''4'' \<and> str_count prev CHR ''4'' \<le> 9
         \<and> length (py_str a) = 1 \<and> length (py_str b) = 1 \<and> length (py_str c) = 1
         \<and> length (py_str d) = 1 \<and> length (py_str (str_count prev CHR ''4'')) = 1
         \<and> length (inventory_run ''01938'' steps) = 5
         \<and> (\<forall>ch\<in>set (inventory_run ''01938'' steps). ch \<in> set ''0123456789'')"
    using full r e l1 l5 dg by (simp add: prev_def)
  then show ?thesis by (intro exI)
qed

theorem inventory_reachable_shape_witness:
  "[0, 1] \<noteq> ([] :: int list) \<and> inventory_run ''01938'' [0, 1] = ''33020''
   \<and> str_count (inventory_run ''01938'' (butlast [0, 1])) CHR ''4'' = 0
   \<and> length (inventory_run ''01938'' [0, 1]) = 5"
  using inventory_reachable_shape [of "[0, 1]"]
  by (simp add: update_inventory_def str_count_def py_str_def str_nat.simps)

section \<open>The simulation loop\<close>

subsection \<open>The loop of the deferred generators\<close>




lemma run_loop_append:
  "run_loop G (xs @ ys) l w =
     (case run_loop G xs l w of
        (Inl e, w') \<Rightarrow> (Inl e, w')
      | (Inr l', w') \<Rightarrow> run_loop G ys l' w')"
  by (induction xs arbitrary: l w) (auto split: prod.splits sum.splits)

text \<open>A loop whose rule cannot raise runs to its end; its records and prints in closed form.\<close>

lemma run_loop_total:
  assumes tot: "\<And>st i. rule G st i = Inr (f st i)"
  shows "run_loop G [0..<n] \<lparr>updated_state = None, dataset = []\<rparr> w =
           (Inr \<lparr>updated_state = (if n = 0 then None else Some (iterate_rule f (init_state G) n)),
                 dataset = map (\<lambda>k. [(''idx'', JInt (int k + 1)), (''type'', JStr (TASK_TYPE G)),
                                     (''task'', JStr (task_text G (int k + 1))),
                                     (''gt_ans'', JStr (ANSWER G (iterate_rule f (init_state G) (Suc k))))])
                               [0..<n]\<rparr>,
            w\<lparr>events := events w
                 @ map (\<lambda>k. EvPrint (ANSWER G (iterate_rule f (init_state G) (Suc k)))) [0..<n]\<rparr>)"
proof (induction n)
  case 0
  show ?case by simp
next
  case (Suc n)
  have "[0..<Suc n] = [0..<n] @ [n]" by simp
  then show ?case
    by (simp only: run_loop_append Suc.IH)
       (simp add: loop_body_def tot py_print_def Let_def)
qed

lemma gt_str_data_line [simp]:
  "gt_str [(''idx'', a), (''type'', b), (''task'', c), (''gt_ans'', JStr s)] = s"
  by (simp add: gt_str_def field_def)

lemma inventory_run_iterate:
  "inventory_run s (map int [0..<k]) = iterate_rule update_inventory s k"
proof (induction k)
  case 0
  show ?case by simp
next
  case (Suc k)
  have "map int [0..<Suc k] = map int [0..<k] @ [int k]" by simp
  then show ?case by (simp only: inventory_run_snoc Suc.IH iterate_rule.simps)
qed

lemma update_rule90_projr: "update_rule90 b = Inr (projr (update_rule90 b))"
  using update_rule90_ok [of b] by auto

text \<open>
  Claim C2, as the specification states it: the state recorded for step \<open>N\<close> is the
  rule applied, with step index \<open>N\<close>, to the state recorded for step \<open>N - 1\<close>.  The
  digit-inventory generator passes the loop index \<open>i = N - 1\<close>, and the rule depends on
  its parity: the state recorded for step 1 is "23120", the rule applied with step index 1
  to the seed gives "33320".
\<close>

theorem recorded_state_not_rule_at_step_index:
  "fst (run_loop (inventory_generator (\<lambda>n. [])) [0..<1] \<lparr>updated_state = None, dataset = []\<rparr>
          empty_world)
     = Inr \<lparr>updated_state = Some ''23120'',
            dataset = [[(''idx'', JInt 1), (''type'', JStr ''digit-inventory-4-fixed8''),
                        (''task'', JStr []), (''gt_ans'', JStr ''23120'')]]\<rparr>
   \<and> update_inventory ''01938'' 1 = ''33320''
   \<and> ''23120'' \<noteq> update_inventory ''01938'' 1"
  by (simp add: loop_body_def inventory_generator_def update_inventory_seed_even
      update_inventory_seed_odd)

text \<open>
  Claim C2, amended, for the two generators the claim cites, code-1-top-digit-inventory4.py
  and code-3-top-rule90.py: for every number of steps \<open>n\<close> the loop runs to its end and
  records \<open>n\<close> states; the state recorded for step \<open>k + 1\<close> is one application of the update
  rule to the state recorded for step \<open>k\<close> (to the seed when \<open>k = 0\<close>), where the digit
  inventory passes its rule the 0-based loop index \<open>k\<close> and Rule 90 takes no index.  So in
  the digit inventory the record of step \<open>k + 1\<close> holds exactly \<open>k + 1\<close> applications of the
  rule to the seed, with the loop indices 0 to \<open>k\<close>; neither loop restarts from the seed.
\<close>

theorem incremental_consistency:
  "(\<exists>l w'. run_loop (inventory_generator template) [0..<n] \<lparr>updated_state = None, dataset = []\<rparr> w
             = (Inr l, w')
        \<and> length (dataset l) = n
        \<and> (\<forall>k<n. gt_str (dataset l ! k)
                    = update_inventory (if k = 0 then ''01938'' else gt_str (dataset l ! (k - 1))) (int k))
        \<and> (\<forall>k<n. gt_str (dataset l ! k) = inventory_run ''01938'' (map int [0..<Suc k])))
   \<and> (\<exists>l w'. run_loop (rule90_generator template) [0..<n] \<lparr>updated_state = None, dataset = []\<rparr> w
             = (Inr l, w')
        \<and> length (dataset l) = n
        \<and> (\<forall>k<n. update_rule90 (if k = 0 then ''0101011101001'' else gt_str (dataset l ! (k - 1)))
                    = Inr (gt_str (dataset l ! k))))"
proof (intro conjI)
  let ?G = "inventory_generator template"
  have tot: "\<And>st i. rule ?G st i = Inr (update_inventory st i)"
    by (simp add: inventory_generator_def)
  have init: "init_state ?G = ''01938''" and ans: "\<And>st. ANSWER ?G st = st"
    by (simp_all add: inventory_generator_def)
  have "\<exists>l w'. run_loop ?G [0..<n] \<lparr>updated_state = None, dataset = []\<rparr> w = (Inr l, w')
          \<and> dataset l = map (\<lambda>k. [(''idx'', JInt (int k + 1)), (''type'', JStr (TASK_TYPE ?G)),
                                     (''task'', JStr (task_text ?G (int k + 1))),
                                     (''gt_ans'', JStr (iterate_rule update_inventory ''01938'' (Suc k)))])
                               [0..<n]"
    unfolding run_loop_total [of ?G update_inventory, OF tot] init ans by simp
  then obtain l w' where run: "run_loop ?G [0..<n] \<lparr>updated_state = None, dataset = []\<rparr> w = (Inr l, w')"
    and ds: "dataset l = map (\<lambda>k. [(''idx'', JInt (int k + 1)), (''type'', JStr (TASK_TYPE ?G)),
                                     (''task'', JStr (task_text ?G (int k + 1))),
                                     (''gt_ans'', JStr (iterate_rule update_inventory ''01938'' (Suc k)))])
                               [0..<n]" by blast
  have len: "length (dataset l) = n" by (simp add: ds)
  have gt: "\<And>k. k < n \<Longrightarrow> gt_str (dataset l ! k) = iterate_rule update_inventory ''01938'' (Suc k)"
    by (simp add: ds del: iterate_rule.simps)
  have step: "\<forall>k<n. gt_str (dataset l ! k)
                    = update_inventory (if k = 0 then ''01938'' else gt_str (dataset l ! (k - 1))) (int k)"
  proof (intro allI impI)
    fix k assume k: "k < n"
    show "gt_str (dataset l ! k)
            = update_inventory (if k = 0 then ''01938'' else gt_str (dataset l ! (k - 1))) (int k)"
    proof (cases k)
      case 0
      then show ?thesis using gt [OF k] by simp
    next
      case (Suc j)
      then have "j < n" using k by simp
      from gt [OF this] gt [OF k] show ?thesis by (simp add: Suc)
    qed
  qed
  have apps: "\<forall>k<n. gt_str (dataset l ! k) = inventory_run ''01938'' (map int [0..<Suc k])"
    using gt by (simp only: inventory_run_iterate) simp
  show "\<exists>l w'. run_loop ?G [0..<n] \<lparr>updated_state = None, dataset = []\<rparr> w = (Inr l, w')
        \<and> length (dataset l) = n
        \<and> (\<forall>k<n. gt_str (dataset l ! k)
                    = update_inventory (if k = 0 then ''01938'' else gt_str (dataset l ! (k - 1))) (int k))
        \<and> (\<forall>k<n. gt_str (dataset l ! k) = inventory_run ''01938'' (map int [0..<Suc k]))"
    using run len step apps by blast
next
  let ?G = "rule90_generator template"
  let ?f = "\<lambda>b (i::int). projr (update_rule90 b)"
  have tot: "\<And>st i. rule ?G st i = Inr (?f st i)"
    using update_rule90_projr by (simp add: rule90_generator_def)
  have init: "init_state ?G = ''0101011101001''" and ans: "\<And>st. ANSWER ?G st = st"
    by (simp_all add: rule90_generator_def)
  have "\<exists>l w'. run_loop ?G [0..<n] \<lparr>updated_state = None, dataset = []\<rparr> w = (Inr l, w')
          \<and> dataset l = map (\<lambda>k. [(''idx'', JInt (int k + 1)), (''type'', JStr (TASK_TYPE ?G)),
                                     (''task'', JStr (task_text ?G (int k + 1))),
                                     (''gt_ans'', JStr (iterate_rule ?f ''0101011101001'' (Suc k)))])
                               [0..<n]"
    unfolding run_loop_total [of ?G ?f, OF tot] init ans by simp
  then obtain l w' where run: "run_loop ?G [0..<n] \<lparr>updated_state = None, dataset = []\<rparr> w = (Inr l, w')"
    and ds: "dataset l = map (\<lambda>k. [(''idx'', JInt (int k + 1)), (''type'', JStr (TASK_TYPE ?G)),
                                     (''task'', JStr (task_text ?G (int k + 1))),
                                     (''gt_ans'', JStr (iterate_rule ?f ''0101011101001'' (Suc k)))])
                               [0..<n]" by blast
  have len: "length (dataset l) = n" by (simp add: ds)
  have gt: "\<And>k. k < n \<Longrightarrow> gt_str (dataset l ! k) = iterate_rule ?f ''0101011101001'' (Suc k)"
    by (simp add: ds del: iterate_rule.simps)
  have step: "\<forall>k<n. update_rule90 (if k = 0 then ''0101011101001'' else gt_str (dataset l ! (k - 1)))
                    = Inr (gt_str (dataset l ! k))"
  proof (intro allI impI)
    fix k assume k: "k < n"
    show "update_rule90 (if k = 0 then ''0101011101001'' else gt_str (dataset l ! (k - 1)))
            = Inr (gt_str (dataset l ! k))"
    proof (cases k)
      case 0
      then show ?thesis using gt [OF k] update_rule90_projr [of "''0101011101001''"] by simp
    next
      case (Suc j)
      then have "j < n" using k by simp
      from gt [OF this] gt [OF k] update_rule90_projr [of "iterate_rule ?f ''0101011101001'' (Suc j)"]
      show ?thesis by (simp add: Suc)
    qed
  qed
  show "\<exists>l w'. run_loop ?G [0..<n] \<lparr>updated_state = None, dataset = []\<rparr> w = (Inr l, w')
        \<and> length (dataset l) = n
        \<and> (\<forall>k<n. update_rule90 (if k = 0 then ''0101011101001'' else gt_str (dataset l ! (k - 1)))
                    = Inr (gt_str (dataset l ! k)))"
    using run len step by blast
qed

theorem incremental_consistency_witness:
  "(\<exists>l w'. run_loop (inventory_generator (\<lambda>n. [])) [0..<2] \<lparr>updated_state = None, dataset = []\<rparr>
              empty_world = (Inr l, w')
        \<and> length (dataset l) = 2
        \<and> gt_str (dataset l ! 0) = update_inventory ''01938'' 0
        \<and> gt_str (dataset l ! 1) = update_inventory (gt_str (dataset l ! 0)) 1
        \<and> gt_str (dataset l ! 1) = ''33020'')
   \<and> (\<exists>l w'. run_loop (rule90_generator (\<lambda>n. [])) [0..<2] \<lparr>updated_state = None, dataset = []\<rparr>
              empty_world = (Inr l, w')
        \<and> length (dataset l) = 2
        \<and> update_rule90 ''0101011101001'' = Inr (gt_str (dataset l ! 0))
        \<and> update_rule90 (gt_str (dataset l ! 0)) = Inr (gt_str (dataset l ! 1)))"
proof -
  note inst = incremental_consistency [of "\<lambda>n. []" 2 empty_world]
  from inst obtain l w' where
    run: "run_loop (inventory_generator (\<lambda>n. [])) [0..<2] \<lparr>updated_state = None, dataset = []\<rparr>
              empty_world = (Inr l, w')"
    and len: "length (dataset l) = 2"
    and step: "\<forall>k<2. gt_str (dataset l ! k)
                    = update_inventory (if k = 0 then ''01938'' else gt_str (dataset l ! (k - 1))) (int k)"
    and apps: "\<forall>k<2. gt_str (dataset l ! k) = inventory_run ''01938'' (map int [0..<Suc k])"
    by blast
  have "(0::nat) < 2" by simp
  with step have "gt_str (dataset l ! 0)
      = update_inventory (if (0::nat) = 0 then ''01938'' else gt_str (dataset l ! (0 - 1))) (int 0)"
    by blast
  then have s0: "gt_str (dataset l ! 0) = update_inventory ''01938'' 0" by simp
  have "(1::nat) < 2" by simp
  with step have "gt_str (dataset l ! 1)
      = update_inventory (if (1::nat) = 0 then ''01938'' else gt_str (dataset l ! (1 - 1))) (int 1)"
    by blast
  then have s1: "gt_str (dataset l ! 1) = update_inventory (gt_str (dataset l ! 0)) 1" by simp
  have "gt_str (dataset l ! 1) = update_inventory ''23120'' 1"
    using s1 s0 by (simp add: update_inventory_seed_even)
  then have v1: "gt_str (dataset l ! 1) = ''33020''"
    by (simp add: update_inventory_def str_count_def py_str_def str_nat.simps)
  from inst obtain l2 w2 where
    run2: "run_loop (rule90_generator (\<lambda>n. [])) [0..<2] \<lparr>updated_state = None, dataset = []\<rparr>
              empty_world = (Inr l2, w2)"
    and len2: "length (dataset l2) = 2"
    and step2: "\<forall>k<2. update_rule90 (if k = 0 then ''0101011101001'' else gt_str (dataset l2 ! (k - 1)))
                    = Inr (gt_str (dataset l2 ! k))"
    by blast
  have "(0::nat) < 2" by simp
  with step2 have "update_rule90 (if (0::nat) = 0 then ''0101011101001'' else gt_str (dataset l2 ! (0 - 1)))
                    = Inr (gt_str (dataset l2 ! 0))" by blast
  then have r0: "update_rule90 ''0101011101001'' = Inr (gt_str (dataset l2 ! 0))" by simp
  have "(1::nat) < 2" by simp
  with step2 have "update_rule90 (if (1::nat) = 0 then ''0101011101001'' else gt_str (dataset l2 ! (1 - 1)))
                    = Inr (gt_str (dataset l2 ! 1))" by blast
  then have r1: "update_rule90 (gt_str (dataset l2 ! 0)) = Inr (gt_str (dataset l2 ! 1))" by simp
  show ?thesis using run len s0 s1 v1 run2 len2 r0 r1 by blast
qed

section \<open>The writer phase\<close>


lemma write_records_dirs: "dirs (write_records p ds w) = dirs w"
  by (induction ds arbitrary: w) (simp_all add: file_write_def)

lemma write_records_files:
  "files (write_records p ds w)
     = (if ds = [] then files w
        else (files w)(p \<mapsto> (case files w p of None \<Rightarrow> [] | Some old \<Rightarrow> old)
                             @ concat (map (\<lambda>r. json_dumps r @ [CHR 0x0A]) ds)))"
proof (induction ds arbitrary: w)
  case Nil
  show ?case by simp
next
  case (Cons r ds)
  show ?case by (cases "ds = []") (simp_all add: Cons.IH file_write_def)
qed

lemma write_records_after_open:
  "files (write_records p ds (open_w p w)) p = Some (concat (map (\<lambda>r. json_dumps r @ [CHR 0x0A]) ds))"
  by (simp add: write_records_files open_w_def)

section \<open>The modelled generators run to completion\<close>

text \<open>
  \<open>shiritori_step\<close> returns on every word and dictionary, and the rules of the digit
  inventory, Rule 90, Ducci and Affine2D never raise; so \<^verbatim>\<open>main()\<close> of these generators
  reaches its writer for every \<open>num_step\<close>.
\<close>

lemma shiritori_step_total: "\<exists>nxt. shiritori_step w dict = Inr nxt"
proof (cases "w = []")
  case True
  then show ?thesis by (simp add: shiritori_step_def)
next
  case False
  note idx = py_index_last [OF False]
  show ?thesis
  proof (cases "shiritori_candidates (last w) dict = []")
    case True
    then show ?thesis using False by (simp add: shiritori_step_def idx)
  next
    case ne: False
    then have "int (length (shiritori_candidates (last w) dict)) \<noteq> 0" by simp
    note m = py_mod_nonzero [OF this]
    show ?thesis using False ne
      by (simp add: shiritori_step_def idx m py_index_mod [OF ne] Let_def)
  qed
qed

lemma shiritori_loop_total:
  "\<exists>cw ds'. shiritori_loop shiritori_step template xs current ds = Inr (cw, ds')"
proof (induction xs arbitrary: current ds)
  case Nil
  show ?case by simp
next
  case (Cons i xs)
  from shiritori_step_total [of current D] obtain nxt where "shiritori_step current D = Inr nxt"
    by blast
  then show ?case using Cons.IH by (simp add: Let_def)
qed

lemma shiritori_main_total:
  "fst (shiritori_main template dir num_step out_path w) = Inr ()"
proof -
  from shiritori_loop_total [of template "[0..<nat num_step]" w0 "[]"] obtain cw ds'
    where "shiritori_loop shiritori_step template [0..<nat num_step] w0 [] = Inr (cw, ds')" by blast
  then show ?thesis by (simp add: shiritori_main_def shiritori_main_with_def Let_def)
qed

lemma generator_main_total:
  assumes "\<And>st i. rule G st i = Inr (f st i)"
  shows "fst (generator_main G dir num_step out_path w) = Inr ()"
  by (simp add: generator_main_def run_loop_total [of G f, OF assms] Let_def)

lemma update_ducci_projr: "update_ducci x i = Inr (projr (update_ducci x i))"
  using update_ducci_ok [of x i] by auto

lemma code_generators_total:
  "fst (generator_main (inventory_generator template) dir num_step out_path w) = Inr ()"
  "fst (generator_main (rule90_generator template) dir num_step out_path w) = Inr ()"
  "fst (generator_main (ducci_generator seed template) dir num_step out_path w) = Inr ()"
  "fst (generator_main (affine2d_generator template) dir num_step out_path w) = Inr ()"
proof -
  show "fst (generator_main (inventory_generator template) dir num_step out_path w) = Inr ()"
    by (rule generator_main_total [where f = update_inventory]) (simp add: inventory_generator_def)
  show "fst (generator_main (rule90_generator template) dir num_step out_path w) = Inr ()"
    by (rule generator_main_total [where f = "\<lambda>b i. projr (update_rule90 b)"])
       (simp add: rule90_generator_def update_rule90_projr [symmetric])
  show "fst (generator_main (ducci_generator seed template) dir num_step out_path w) = Inr ()"
    by (rule generator_main_total [where f = "\<lambda>x i. projr (update_ducci x i)"])
       (simp add: ducci_generator_def update_ducci_projr [symmetric])
  show "fst (generator_main (affine2d_generator template) dir num_step out_path w) = Inr ()"
    by (rule generator_main_total [where f = "\<lambda>st i. update_affine2d st"])
       (simp add: affine2d_generator_def)
qed

section \<open>The effects of a run, in order\<close>










section \<open>The lines of the output file\<close>

subsection \<open>A JSON line holds no newline\<close>

lemma str_nat_chars: "set (str_nat n) \<subseteq> set ''0123456789''"
proof (induction n rule: str_nat.induct)
  case (1 n)
  show ?case
  proof (cases "n < 10")
    case True
    then have "''0123456789'' ! n \<in> set ''0123456789''" by (intro nth_mem) simp
    then show ?thesis using True by (subst str_nat.simps) simp
  next
    case False
    have "n mod 10 < length ''0123456789''" by simp
    then have "''0123456789'' ! (n mod 10) \<in> set ''0123456789''" by (rule nth_mem)
    moreover have "set (str_nat (n div 10)) \<subseteq> set ''0123456789''" using "1.IH" False by simp
    ultimately show ?thesis using False by (subst str_nat.simps) simp
  qed
qed

lemma py_str_no_newline: "CHR 0x0A \<notin> set (py_str v)"
  using str_nat_chars [of "nat v"] str_nat_chars [of "nat (- v)"]
  by (auto simp add: py_str_def)

lemma hex_digit_no_newline: "k < 16 \<Longrightarrow> ''0123456789abcdef'' ! k \<noteq> CHR 0x0A"
proof -
  assume "k < 16"
  then have "k < length ''0123456789abcdef''" by simp
  then have "''0123456789abcdef'' ! k \<in> set ''0123456789abcdef''" by (rule nth_mem)
  then show ?thesis by auto
qed

lemma hex4_no_newline: "CHR 0x0A \<notin> set (hex4 n)"
  using hex_digit_no_newline [of "n div 4096 mod 16"] hex_digit_no_newline [of "n div 256 mod 16"]
    hex_digit_no_newline [of "n div 16 mod 16"] hex_digit_no_newline [of "n mod 16"]
  by (simp add: hex4_def)

lemma json_escape_no_newline: "CHR 0x0A \<notin> set (json_escape c)"
  using hex4_no_newline [of "of_char c"] by (simp add: json_escape_def)

lemma json_string_no_newline: "CHR 0x0A \<notin> set (json_string s)"
  using json_escape_no_newline by (simp add: json_string_def)

lemma json_value_no_newline: "CHR 0x0A \<notin> set (json_value v)"
  by (cases v) (simp_all add: py_str_no_newline json_string_no_newline)

lemma str_join_chars: "set (str_join sep ps) \<subseteq> set sep \<union> (\<Union>p\<in>set ps. set p)"
  by (induction sep ps rule: str_join.induct) auto

lemma json_dumps_no_newline: "CHR 0x0A \<notin> set (json_dumps rec)"
proof -
  let ?items = "map (\<lambda>(k, v). json_string k @ '': '' @ json_value v) rec"
  have "CHR 0x0A \<notin> (\<Union>p\<in>set ?items. set p)"
    using json_string_no_newline json_value_no_newline by (auto split: prod.splits)
  moreover have "CHR 0x0A \<notin> set '', ''" by simp
  ultimately have "CHR 0x0A \<notin> set (str_join '', '' ?items)"
    using str_join_chars [of "'', ''" ?items] by blast
  then show ?thesis by (simp add: json_dumps_def)
qed

lemma split_lines_line:
  "CHR 0x0A \<notin> set ln \<Longrightarrow> split_lines acc (ln @ CHR 0x0A # rest) = (acc @ ln) # split_lines [] rest"
  by (induction ln arbitrary: acc) auto

lemma split_lines_records:
  "split_lines [] (concat (map (\<lambda>r. json_dumps r @ [CHR 0x0A]) ds)) = map json_dumps ds"
proof (induction ds)
  case Nil
  show ?case by simp
next
  case (Cons r ds)
  have "split_lines [] (json_dumps r @ CHR 0x0A # concat (map (\<lambda>r. json_dumps r @ [CHR 0x0A]) ds))
          = ([] @ json_dumps r) # split_lines [] (concat (map (\<lambda>r. json_dumps r @ [CHR 0x0A]) ds))"
    by (rule split_lines_line) (rule json_dumps_no_newline)
  then show ?case using Cons.IH by simp
qed

subsection \<open>The records of a loop\<close>

lemma loop_body_record:
  assumes "loop_body G i l w = (Inr l1, w1)"
  shows "\<exists>st'. dataset l1 = dataset l @ [[(''idx'', JInt (int i + 1)), (''type'', JStr (TASK_TYPE G)),
                  (''task'', JStr (task_text G (int i + 1))), (''gt_ans'', JStr (ANSWER G st'))]]"
proof (cases "(if i = 0 then rule G (init_state G) (int i)
            else (case updated_state l of None \<Rightarrow> Inl TypeError | Some st \<Rightarrow> rule G st (int i)))")
  case (Inl e)
  then have "loop_body G i l w = (Inl e, w)" by (simp add: loop_body_def)
  with assms show ?thesis by simp
next
  case (Inr st')
  then have "loop_body G i l w
      = (Inr \<lparr>updated_state = Some st',
               dataset = dataset l @ [[(''idx'', JInt (int i + 1)), (''type'', JStr (TASK_TYPE G)),
                  (''task'', JStr (task_text G (int i + 1))), (''gt_ans'', JStr (ANSWER G st'))]]\<rparr>,
         py_print (ANSWER G st') w)"
    by (simp add: loop_body_def Let_def)
  with assms have "l1 = \<lparr>updated_state = Some st',
               dataset = dataset l @ [[(''idx'', JInt (int i + 1)), (''type'', JStr (TASK_TYPE G)),
                  (''task'', JStr (task_text G (int i + 1))), (''gt_ans'', JStr (ANSWER G st'))]]\<rparr>"
    by simp
  then have "dataset l1 = dataset l @ [[(''idx'', JInt (int i + 1)), (''type'', JStr (TASK_TYPE G)),
                  (''task'', JStr (task_text G (int i + 1))), (''gt_ans'', JStr (ANSWER G st'))]]"
    by simp
  then show ?thesis by (rule exI)
qed

lemma run_loop_dataset:
  assumes "run_loop G xs l w = (Inr l', w')"
  shows "\<exists>recs. dataset l' = dataset l @ recs \<and> length recs = length xs
           \<and> (\<forall>k<length xs. map fst (recs ! k) = [''idx'', ''type'', ''task'', ''gt_ans'']
                  \<and> field (recs ! k) ''idx'' = Some (JInt (int (xs ! k) + 1))
                  \<and> field (recs ! k) ''type'' = Some (JStr (TASK_TYPE G)))"
  using assms
proof (induction xs arbitrary: l w)
  case Nil
  then show ?case by simp
next
  case (Cons i xs)
  obtain r1 w1 where b: "loop_body G i l w = (r1, w1)" by (cases "loop_body G i l w")
  with Cons.prems obtain l1 where r1: "r1 = Inr l1" and rest: "run_loop G xs l1 w1 = (Inr l', w')"
    by (cases r1) simp_all
  from loop_body_record [OF b [unfolded r1]] obtain st' where
    l1: "dataset l1 = dataset l @ [[(''idx'', JInt (int i + 1)), (''type'', JStr (TASK_TYPE G)),
                  (''task'', JStr (task_text G (int i + 1))), (''gt_ans'', JStr (ANSWER G st'))]]"
    by blast
  from Cons.IH [OF rest] obtain recs where
    recs: "dataset l' = dataset l1 @ recs" "length recs = length xs"
    and each: "\<forall>k<length xs. map fst (recs ! k) = [''idx'', ''type'', ''task'', ''gt_ans'']
                  \<and> field (recs ! k) ''idx'' = Some (JInt (int (xs ! k) + 1))
                  \<and> field (recs ! k) ''type'' = Some (JStr (TASK_TYPE G))" by blast
  let ?rec = "[(''idx'', JInt (int i + 1)), (''type'', JStr (TASK_TYPE G)),
                  (''task'', JStr (task_text G (int i + 1))), (''gt_ans'', JStr (ANSWER G st'))]"
  have a: "dataset l' = dataset l @ (?rec # recs)" using recs(1) l1 by simp
  have c: "length (?rec # recs) = length (i # xs)" using recs(2) by simp
  have d: "\<forall>k<length (i # xs). map fst ((?rec # recs) ! k) = [''idx'', ''type'', ''task'', ''gt_ans'']
                  \<and> field ((?rec # recs) ! k) ''idx'' = Some (JInt (int ((i # xs) ! k) + 1))
                  \<and> field ((?rec # recs) ! k) ''type'' = Some (JStr (TASK_TYPE G))"
  proof (intro allI impI)
    fix k assume k: "k < length (i # xs)"
    show "map fst ((?rec # recs) ! k) = [''idx'', ''type'', ''task'', ''gt_ans'']
                  \<and> field ((?rec # recs) ! k) ''idx'' = Some (JInt (int ((i # xs) ! k) + 1))
                  \<and> field ((?rec # recs) ! k) ''type'' = Some (JStr (TASK_TYPE G))"
    proof (cases k)
      case 0
      then show ?thesis by (simp add: field_def)
    next
      case (Suc j)
      then have "j < length xs" using k by simp
      with each show ?thesis by (simp add: Suc)
    qed
  qed
  from a c d show ?case by blast
qed

section \<open>The record format\<close>

text \<open>
  Claim C9, as the specification states it: exactly two scripts add the field
  \<open>gt_ans_latex\<close> to their records.  Of the 39 scripts one does.
\<close>

theorem one_script_has_gt_ans_latex: "\<not> length (scripts_with_key ''gt_ans_latex'') = 2"
  by (simp add: scripts_with_key_def script_record_keys_def)

text \<open>
  Claim C9, amended: the record literal of every script has exactly the keys \<open>idx\<close>,
  \<open>type\<close>, \<open>task\<close>, \<open>gt_ans\<close>, except that exactly one script, math-matrix-hard-v4.py, adds
  \<open>gt_ans_latex\<close> (between \<open>task\<close> and \<open>gt_ans\<close>).  A run of \<open>generator_main\<close> that completes
  leaves in the output file one JSON object per line, as many lines as \<open>num_step\<close>, in the
  order of the loop; the object on line \<open>k + 1\<close> has the four keys, the generator's type tag
  and \<open>idx = k + 1\<close>, the 1-based step count.
\<close>

theorem record_format:
  "(\<forall>e\<in>set script_record_keys.
       snd e = [''idx'', ''type'', ''task'', ''gt_ans'']
     \<or> snd e = [''idx'', ''type'', ''task'', ''gt_ans_latex'', ''gt_ans''])
   \<and> length script_record_keys = 39
   \<and> scripts_with_key ''gt_ans_latex'' = [''math-matrix-hard-v4.py'']
   \<and> map fst (matrix_data_line step task a b c d sum_answer)
       = [''idx'', ''type'', ''task'', ''gt_ans_latex'', ''gt_ans'']
   \<and> (generator_main G dir num_step out_path w = (Inr u, w') \<longrightarrow>
        (\<exists>ds. length ds = nat num_step
           \<and> (\<forall>k<length ds. map fst (ds ! k) = [''idx'', ''type'', ''task'', ''gt_ans'']
                  \<and> field (ds ! k) ''idx'' = Some (JInt (int k + 1))
                  \<and> field (ds ! k) ''type'' = Some (JStr (TASK_TYPE G)))
           \<and> files w' (path_join dir out_path)
               = Some (concat (map (\<lambda>r. json_dumps r @ [CHR 0x0A]) ds))
           \<and> split_lines [] (concat (map (\<lambda>r. json_dumps r @ [CHR 0x0A]) ds)) = map json_dumps ds))"
proof (intro conjI impI)
  show "\<forall>e\<in>set script_record_keys.
       snd e = [''idx'', ''type'', ''task'', ''gt_ans'']
     \<or> snd e = [''idx'', ''type'', ''task'', ''gt_ans_latex'', ''gt_ans'']"
    by (simp add: script_record_keys_def)
  show "length script_record_keys = 39" by (simp add: script_record_keys_def)
  show "scripts_with_key ''gt_ans_latex'' = [''math-matrix-hard-v4.py'']"
    by (simp add: scripts_with_key_def script_record_keys_def)
  show "map fst (matrix_data_line step task a b c d sum_answer)
       = [''idx'', ''type'', ''task'', ''gt_ans_latex'', ''gt_ans'']"
    by (simp add: matrix_data_line_def)
next
  assume m: "generator_main G dir num_step out_path w = (Inr u, w')"
  obtain r w1 where run: "run_loop G [0..<nat num_step] \<lparr>updated_state = None, dataset = []\<rparr> w = (r, w1)"
    by (cases "run_loop G [0..<nat num_step] \<lparr>updated_state = None, dataset = []\<rparr> w")
  from m run obtain l where l: "r = Inr l"
    by (cases r) (simp_all add: generator_main_def Let_def)
  from m run l have w': "w' = py_print (''Wrote '' @ py_str (int (length (dataset l))) @ '' records to '' @ out_path)
       (write_records (path_join dir out_path) (dataset l) (open_w (path_join dir out_path) (mkdir dir w1)))"
    by (simp add: generator_main_def Let_def)
  from run_loop_dataset [OF run [unfolded l]] obtain recs where
    recs: "dataset l = recs" "length recs = nat num_step"
    and each: "\<forall>k<nat num_step. map fst (recs ! k) = [''idx'', ''type'', ''task'', ''gt_ans'']
                  \<and> field (recs ! k) ''idx'' = Some (JInt (int ([0..<nat num_step] ! k) + 1))
                  \<and> field (recs ! k) ''type'' = Some (JStr (TASK_TYPE G))"
    by auto
  have each': "\<forall>k<length recs. map fst (recs ! k) = [''idx'', ''type'', ''task'', ''gt_ans'']
                  \<and> field (recs ! k) ''idx'' = Some (JInt (int k + 1))
                  \<and> field (recs ! k) ''type'' = Some (JStr (TASK_TYPE G))"
    using each recs(2) by simp
  have f: "files w' (path_join dir out_path) = Some (concat (map (\<lambda>r. json_dumps r @ [CHR 0x0A]) recs))"
    by (simp add: w' py_print_def write_records_after_open recs(1))
  show "\<exists>ds. length ds = nat num_step
           \<and> (\<forall>k<length ds. map fst (ds ! k) = [''idx'', ''type'', ''task'', ''gt_ans'']
                  \<and> field (ds ! k) ''idx'' = Some (JInt (int k + 1))
                  \<and> field (ds ! k) ''type'' = Some (JStr (TASK_TYPE G)))
           \<and> files w' (path_join dir out_path)
               = Some (concat (map (\<lambda>r. json_dumps r @ [CHR 0x0A]) ds))
           \<and> split_lines [] (concat (map (\<lambda>r. json_dumps r @ [CHR 0x0A]) ds)) = map json_dumps ds"
    using recs(2) each' f split_lines_records [of recs] by blast
qed

theorem record_format_witness:
  "(''code-1-top-digit-inventory4.py'', [''idx'', ''type'', ''task'', ''gt_ans'']) \<in> set script_record_keys
   \<and> (''math-matrix-hard-v4.py'', [''idx'', ''type'', ''task'', ''gt_ans_latex'', ''gt_ans''])
        \<in> set script_record_keys
   \<and> fst (generator_main (inventory_generator (\<lambda>n. [])) ''data'' 2 ''o.jsonl'' empty_world) = Inr ()
   \<and> files (snd (generator_main (inventory_generator (\<lambda>n. [])) ''data'' 2 ''o.jsonl'' empty_world))
        ''data/o.jsonl''
      = Some (concat (map (\<lambda>r. json_dumps r @ [CHR 0x0A])
          [[(''idx'', JInt 1), (''type'', JStr ''digit-inventory-4-fixed8''),
            (''task'', JStr []), (''gt_ans'', JStr ''23120'')],
           [(''idx'', JInt 2), (''type'', JStr ''digit-inventory-4-fixed8''),
            (''task'', JStr []), (''gt_ans'', JStr ''33020'')]]))"
proof -
  have a: "(''code-1-top-digit-inventory4.py'', [''idx'', ''type'', ''task'', ''gt_ans''])
             \<in> set script_record_keys"
    and b: "(''math-matrix-hard-v4.py'', [''idx'', ''type'', ''task'', ''gt_ans_latex'', ''gt_ans''])
             \<in> set script_record_keys"
    by (simp_all add: script_record_keys_def)
  have s2: "update_inventory ''23120'' 1 = ''33020''"
    by (simp add: update_inventory_def str_count_def py_str_def str_nat.simps)
  have run: "run_loop (inventory_generator (\<lambda>n. [])) [0..<2] \<lparr>updated_state = None, dataset = []\<rparr> empty_world
     = (Inr \<lparr>updated_state = Some ''33020'',
              dataset = [[(''idx'', JInt 1), (''type'', JStr ''digit-inventory-4-fixed8''),
                          (''task'', JStr []), (''gt_ans'', JStr ''23120'')],
                         [(''idx'', JInt 2), (''type'', JStr ''digit-inventory-4-fixed8''),
                          (''task'', JStr []), (''gt_ans'', JStr ''33020'')]]\<rparr>,
        py_print ''33020'' (py_print ''23120'' empty_world))"
    by (simp add: upt_conv_Cons loop_body_def inventory_generator_def update_inventory_seed_even s2)
  have c: "fst (generator_main (inventory_generator (\<lambda>n. [])) ''data'' 2 ''o.jsonl'' empty_world) = Inr ()"
    by (simp add: generator_main_def run Let_def)
  have d: "files (snd (generator_main (inventory_generator (\<lambda>n. [])) ''data'' 2 ''o.jsonl'' empty_world))
        ''data/o.jsonl''
      = Some (concat (map (\<lambda>r. json_dumps r @ [CHR 0x0A])
          [[(''idx'', JInt 1), (''type'', JStr ''digit-inventory-4-fixed8''),
            (''task'', JStr []), (''gt_ans'', JStr ''23120'')],
           [(''idx'', JInt 2), (''type'', JStr ''digit-inventory-4-fixed8''),
            (''task'', JStr []), (''gt_ans'', JStr ''33020'')]]))"
    by (simp add: generator_main_def run Let_def py_print_def path_join_def
        write_records_after_open [of "''data/o.jsonl''", simplified] del: write_records.simps)
  show ?thesis
    using a b c d
      record_format [of 1 "[]" 1 2 3 4 10 "inventory_generator (\<lambda>n. [])" "''data''" 2 "''o.jsonl''"
        empty_world "()" "snd (generator_main (inventory_generator (\<lambda>n. [])) ''data'' 2 ''o.jsonl'' empty_world)"]
    by simp
qed

section \<open>Running the embedded snippets\<close>

text \<open>
  With \<open>i\<close> bound to an integer the body of the snippet's \<open>f\<close> is \<open>update_inventory\<close>: the
  transcription differs from the rule in the unbound name only.
\<close>

lemma inventory_snippet_f_bound:
  "inventory_snippet_f (g(''i'' \<mapsto> PInt i)) s = Inr (update_inventory s i)"
  by (simp add: inventory_snippet_f_def update_inventory_def load_name_def Let_def)

lemma inventory_snippet_f_unbound:
  "g ''i'' = None \<Longrightarrow> inventory_snippet_f g s = Inl (NameError ''i'')"
  by (simp add: inventory_snippet_f_def load_name_def Let_def)

lemma ducci_snippet_f_unbound:
  "g ''j'' = None \<Longrightarrow> ducci_snippet_f g (v # vs) = Inl (NameError ''j'')"
  by (simp add: ducci_snippet_f_def load_name_def Let_def upt_conv_Cons del: upt_Suc)

text \<open>
  Claim C1 says that executing the snippet embedded in a record's task text reproduces
  the record's answer.  The snippet of the digit inventory reads \<open>i\<close> inside \<open>f\<close> and the
  snippet of the Ducci generator reads \<open>j\<close>; neither program binds that name, so for every
  step count of at least one (and, for Ducci, every non-empty vector) the run ends in
  \<open>NameError\<close> and assigns no answer, while the records of step 1 store "23120" and
  "6213710403".
\<close>

theorem embedded_snippets_raise_name_error:
  "inventory_snippet (1 + int n) init = Inl (NameError ''i'')
   \<and> ducci_snippet (1 + int n) (v # vs) = Inl (NameError ''j'')
   \<and> inventory_snippet 1 ''01938'' = Inl (NameError ''i'')
   \<and> fst (run_loop (inventory_generator template) [0..<1] \<lparr>updated_state = None, dataset = []\<rparr> w)
       = Inr \<lparr>updated_state = Some ''23120'',
              dataset = [[(''idx'', JInt 1), (''type'', JStr ''digit-inventory-4-fixed8''),
                          (''task'', JStr (template 1)), (''gt_ans'', JStr ''23120'')]]\<rparr>
   \<and> ducci_snippet 1 ducci_default_seed = Inl (NameError ''j'')
   \<and> fst (run_loop (ducci_generator ducci_default_seed template) [0..<1]
             \<lparr>updated_state = None, dataset = []\<rparr> w)
       = Inr \<lparr>updated_state = Some [6, 2, 13, 7, 1, 0, 4, 0, 3],
              dataset = [[(''idx'', JInt 1), (''type'', JStr ''ducci-mod1000-cyclic''),
                          (''task'', JStr (template 1)), (''gt_ans'', JStr ''6213710403'')]]\<rparr>"
proof -
  have n: "[0..<nat (1 + int n)] = 0 # [1..<Suc n]"
    by (simp add: upt_conv_Cons nat_add_distrib)
  have a: "inventory_snippet (1 + int n) init = Inl (NameError ''i'')"
    unfolding inventory_snippet_def Let_def n
    by (simp add: load_name_def inventory_snippet_f_unbound)
  have b: "ducci_snippet (1 + int n) (v # vs) = Inl (NameError ''j'')"
    unfolding ducci_snippet_def Let_def n
    by (simp add: load_name_def ducci_snippet_f_unbound)
  have a1: "inventory_snippet 1 ''01938'' = Inl (NameError ''i'')"
    by (simp add: inventory_snippet_def inventory_snippet_f_def load_name_def)
  have b1: "ducci_snippet 1 ducci_default_seed = Inl (NameError ''j'')"
    by (simp add: ducci_snippet_def ducci_snippet_f_def load_name_def ducci_default_seed_def
        upt_conv_Cons)
  have c: "fst (run_loop (inventory_generator template) [0..<1] \<lparr>updated_state = None, dataset = []\<rparr> w)
       = Inr \<lparr>updated_state = Some ''23120'',
              dataset = [[(''idx'', JInt 1), (''type'', JStr ''digit-inventory-4-fixed8''),
                          (''task'', JStr (template 1)), (''gt_ans'', JStr ''23120'')]]\<rparr>"
    by (simp add: loop_body_def inventory_generator_def update_inventory_seed_even)
  have d: "fst (run_loop (ducci_generator ducci_default_seed template) [0..<1]
             \<lparr>updated_state = None, dataset = []\<rparr> w)
       = Inr \<lparr>updated_state = Some [6, 2, 13, 7, 1, 0, 4, 0, 3],
              dataset = [[(''idx'', JInt 1), (''type'', JStr ''ducci-mod1000-cyclic''),
                          (''task'', JStr (template 1)), (''gt_ans'', JStr ''6213710403'')]]\<rparr>"
    by (simp add: loop_body_def ducci_generator_def update_ducci_seed py_str_def str_nat.simps)
  show ?thesis using a b a1 b1 c d by simp
qed

end
